theory Spec2Isabelle
  imports Main
begin

section \<open>Outcomes of a call\<close>

text \<open>
  A Go call either returns, panics, or never returns because the calling goroutine
  waits for a lock that only itself could release. The three outcomes are kept apart:
  \<open>Blocked\<close> means that the call does not return.
\<close>

datatype 'a outcome = Blocked | Panics | Returns 'a

fun bind_outcome :: "'a outcome \<Rightarrow> ('a \<Rightarrow> 'b outcome) \<Rightarrow> 'b outcome" where
  "bind_outcome Blocked f = Blocked"
| "bind_outcome Panics f = Panics"
| "bind_outcome (Returns x) f = f x"

section \<open>sync.RWMutex, as seen by one goroutine\<close>

text \<open>
  The mutex records whether a writer holds it and how many readers hold it. The mutex of
  Go is not reentrant: \<open>Lock\<close> on a mutex that is held waits for an \<open>Unlock\<close>, also when
  the holder is the caller itself. Unlocking a mutex that is not held is a fatal error.
\<close>

record rwmutex =
  writer :: bool
  readers :: nat

definition rw_free :: rwmutex where
  "rw_free = \<lparr>writer = False, readers = 0\<rparr>"

definition rw_Lock :: "rwmutex \<Rightarrow> rwmutex outcome" where
  "rw_Lock m = (if writer m \<or> readers m > 0 then Blocked else Returns (m\<lparr>writer := True\<rparr>))"

definition rw_Unlock :: "rwmutex \<Rightarrow> rwmutex outcome" where
  "rw_Unlock m = (if writer m then Returns (m\<lparr>writer := False\<rparr>) else Panics)"

definition rw_RLock :: "rwmutex \<Rightarrow> rwmutex outcome" where
  "rw_RLock m = (if writer m then Blocked else Returns (m\<lparr>readers := Suc (readers m)\<rparr>))"

definition rw_RUnlock :: "rwmutex \<Rightarrow> rwmutex outcome" where
  "rw_RUnlock m = (if readers m > 0 then Returns (m\<lparr>readers := readers m - 1\<rparr>) else Panics)"

section \<open>The driver registry (internal/op/driver.go)\<close>

subsection \<open>Data\<close>

text \<open>
  \<open>driver.Config\<close>, with the fields that the plugin adapter's literal names. The method
  \<open>MustProxy\<close> of \<open>driver.Config\<close> is declared outside the files at hand and is a
  parameter of \<open>getMainItems\<close>.
\<close>

record Config =
  Name :: string
  LocalSort :: bool
  OnlyLinkMFile :: bool
  OnlyProxy :: bool
  NoCache :: bool
  NoUpload :: bool
  NeedMs :: bool
  DefaultRoot :: string
  CheckStatus :: bool
  Alert :: string
  NoOverwriteUpload :: bool
  ProxyRangeOption :: bool
  NoLinkURL :: bool

text \<open>
  The type of a configuration item is a string. The constants \<open>conf.TypeString\<close>, ...
  are declared outside the files at hand and stay symbolic.
\<close>

datatype conf_type = TypeString | TypeNumber | TypeText | TypeBool | TypeSelect

datatype item_type = Conf conf_type | Lit string

record Item =
  Item_Name :: string
  Item_Type :: item_type
  Item_Default :: string
  Item_Options :: string
  Item_Required :: bool
  Item_Help :: string

record Info =
  Common :: "Item list"
  Additional :: "Item list"
  Info_Config :: Config

text \<open>
  What \<open>reflect\<close> shows of the type of an \<open>Additional\<close> value: a pointer to a type, a
  map, a struct with its name and its fields (type and tag of each), or a type of
  another kind with its name.
\<close>

datatype gotype =
    PointerT gotype
  | MapT
  | StructT string "(gotype \<times> (string \<times> string) list) list"
  | OtherT string

fun type_Name :: "gotype \<Rightarrow> string" where
  "type_Name (StructT n fs) = n"
| "type_Name (OtherT n) = n"
| "type_Name _ = []"

fun is_StructT :: "gotype \<Rightarrow> bool" where
  "is_StructT (StructT n fs) = True"
| "is_StructT _ = False"

text \<open>\<open>tag.Lookup\<close> and \<open>tag.Get\<close> of a struct tag given as key-value pairs.\<close>

definition tag_Lookup :: "(string \<times> string) list \<Rightarrow> string \<Rightarrow> string option" where
  "tag_Lookup tag k = map_of tag k"

definition tag_Get :: "(string \<times> string) list \<Rightarrow> string \<Rightarrow> string" where
  "tag_Get tag k = (case map_of tag k of None \<Rightarrow> [] | Some v \<Rightarrow> v)"

text \<open>\<open>strings.ToLower\<close> on the ASCII letters (type names are taken to be ASCII).\<close>

definition to_lower_char :: "char \<Rightarrow> char" where
  "to_lower_char c =
     (let n = (of_char c :: nat) in if 65 \<le> n \<and> n \<le> 90 then char_of (n + 32) else c)"

definition ToLower :: "string \<Rightarrow> string" where
  "ToLower s = map to_lower_char s"

text \<open>
  A driver is either a built-in one, known here by the configuration it reports and by
  the value that its \<open>GetAddition\<close> returns, or
  the adapter of a plugin driver. A plugin client is known by the number of the
  subprocess that it talks to. The adapter's \<open>storage\<close> field is nil until \<open>SetStorage\<close>
  and is read by \<open>Init\<close> only; it is left out.
\<close>

record PluginDriverAdapter =
  Adapter_pluginClient :: nat
  Adapter_driverName :: string

text \<open>
  A \<open>driver.Additional\<close> value, as far as the registry looks at it: the nil interface,
  a value of some type (built-in drivers pass a pointer to their options struct), or a
  \<open>map[string]interface{}\<close> with its keys.
\<close>

datatype Additional = NilAdditional | ValueOf gotype | MapValue "string list"

datatype Driver = BuiltinDriver Config Additional | AdapterDriver PluginDriverAdapter

text \<open>
  A \<open>DriverConstructor\<close> is a function value; the two shapes that occur are the
  constructor of a built-in driver and the closure that \<open>registerPluginDriver\<close> builds,
  which captures the plugin client and the driver name.
\<close>

datatype DriverConstructor = BuiltinCtor Config Additional | PluginCtor nat string

record registry =
  driverMap :: "string \<rightharpoonup> DriverConstructor"
  driverInfoMap :: "string \<rightharpoonup> Info"
  driverMutex :: rwmutex

subsection \<open>The plugin adapter's metadata (internal/plugin/adapter.go)\<close>

definition NewPluginDriverAdapter :: "nat \<Rightarrow> string \<Rightarrow> PluginDriverAdapter" where
  "NewPluginDriverAdapter client name = \<lparr>Adapter_pluginClient = client, Adapter_driverName = name\<rparr>"

definition adapter_Config :: "PluginDriverAdapter \<Rightarrow> Config" where
  "adapter_Config a =
     \<lparr>Name = Adapter_driverName a,
      LocalSort = False,
      OnlyLinkMFile = False,
      OnlyProxy = False,
      NoCache = False,
      NoUpload = False,
      NeedMs = False,
      DefaultRoot = ''/'',
      CheckStatus = False,
      Alert = [],
      NoOverwriteUpload = False,
      ProxyRangeOption = False,
      NoLinkURL = False\<rparr>"

definition adapter_GetAddition :: "PluginDriverAdapter \<Rightarrow> Additional" where
  "adapter_GetAddition a = MapValue []"

subsection \<open>Calling a constructor and a driver's metadata methods\<close>

fun construct :: "DriverConstructor \<Rightarrow> Driver" where
  "construct (BuiltinCtor c add) = BuiltinDriver c add"
| "construct (PluginCtor client name) = AdapterDriver (NewPluginDriverAdapter client name)"

fun driver_Config :: "Driver \<Rightarrow> Config" where
  "driver_Config (BuiltinDriver c add) = c"
| "driver_Config (AdapterDriver a) = adapter_Config a"

fun driver_GetAddition :: "Driver \<Rightarrow> Additional" where
  "driver_GetAddition (BuiltinDriver c add) = add"
| "driver_GetAddition (AdapterDriver a) = adapter_GetAddition a"

subsection \<open>Configuration items\<close>

text \<open>The zero value of \<open>driver.Item\<close>: a struct literal leaves the other fields at it.\<close>

definition Item0 :: Item where
  "Item0 = \<lparr>Item_Name = [], Item_Type = Lit [], Item_Default = [], Item_Options = [],
            Item_Required = False, Item_Help = []\<rparr>"

definition getMainItems :: "(Config \<Rightarrow> bool) \<Rightarrow> Config \<Rightarrow> Item list" where
  "getMainItems MustProxy config =
    (let items =
       [Item0\<lparr>Item_Name := ''mount_path'', Item_Type := Conf TypeString, Item_Required := True,
          Item_Help := ''The path you want to mount to, it is unique and cannot be repeated''\<rparr>,
        Item0\<lparr>Item_Name := ''order'', Item_Type := Conf TypeNumber, Item_Help := ''use to sort''\<rparr>,
        Item0\<lparr>Item_Name := ''remark'', Item_Type := Conf TypeText\<rparr>];
       items = (if \<not> NoCache config
                then items @ [Item0\<lparr>Item_Name := ''cache_expiration'', Item_Type := Conf TypeNumber,
                       Item_Default := ''30'', Item_Required := True,
                       Item_Help := ''The cache expiration time for this storage''\<rparr>]
                else items);
       items = (if MustProxy config
                then items @ [Item0\<lparr>Item_Name := ''webdav_policy'', Item_Type := Conf TypeSelect,
                       Item_Default := ''native_proxy'',
                       Item_Options := ''use_proxy_url,native_proxy'', Item_Required := True\<rparr>]
                else
                  (let items = items @
                       [Item0\<lparr>Item_Name := ''web_proxy'', Item_Type := Conf TypeBool\<rparr>,
                        Item0\<lparr>Item_Name := ''webdav_policy'', Item_Type := Conf TypeSelect,
                          Item_Options := ''302_redirect,use_proxy_url,native_proxy'',
                          Item_Default := ''302_redirect'', Item_Required := True\<rparr>]
                   in if ProxyRangeOption config
                      then (let item = Item0\<lparr>Item_Name := ''proxy_range'', Item_Type := Conf TypeBool,
                                         Item_Help := ''Need to enable proxy''\<rparr>;
                                item = (if Name config = ''139Yun''
                                        then item\<lparr>Item_Default := ''true''\<rparr> else item)
                            in items @ [item])
                      else items));
       items = items @ [Item0\<lparr>Item_Name := ''down_proxy_url'', Item_Type := Conf TypeText\<rparr>];
       items = items @ [Item0\<lparr>Item_Name := ''disable_proxy_sign'', Item_Type := Conf TypeBool,
                          Item_Default := ''false'',
                          Item_Help := ''Disable sign for Download proxy URL''\<rparr>];
       items = (if LocalSort config
                then items @
                  [Item0\<lparr>Item_Name := ''order_by'', Item_Type := Conf TypeSelect,
                     Item_Options := ''name,size,modified''\<rparr>,
                   Item0\<lparr>Item_Name := ''order_direction'', Item_Type := Conf TypeSelect,
                     Item_Options := ''asc,desc''\<rparr>]
                else items);
       items = items @ [Item0\<lparr>Item_Name := ''extract_folder'', Item_Type := Conf TypeSelect,
                          Item_Options := ''front,back''\<rparr>];
       items = items @ [Item0\<lparr>Item_Name := ''disable_index'', Item_Type := Conf TypeBool,
                          Item_Default := ''false'', Item_Required := True\<rparr>];
       items = items @ [Item0\<lparr>Item_Name := ''enable_sign'', Item_Type := Conf TypeBool,
                          Item_Default := ''false'', Item_Required := True\<rparr>]
     in items)"

text \<open>
  The item of one field that is not a struct, or \<open>None\<close> when the field is passed over
  (tag \<open>ignore:"true"\<close>, or no \<open>json\<close> tag).
\<close>

definition field_item :: "gotype \<Rightarrow> (string \<times> string) list \<Rightarrow> string \<Rightarrow> Item option" where
  "field_item ftype tag defaultRoot =
    (let ignore = tag_Lookup tag ''ignore''; name = tag_Lookup tag ''json'' in
     if ignore = Some ''true'' \<or> name = None then None
     else
      (let item = \<lparr>Item_Name = the name,
                      Item_Type = Lit (ToLower (type_Name ftype)),
                      Item_Default = tag_Get tag ''default'',
                      Item_Options = tag_Get tag ''options'',
                      Item_Required = (tag_Get tag ''required'' = ''true''),
                      Item_Help = tag_Get tag ''help''\<rparr>;
           item = (if tag_Get tag ''type'' \<noteq> [] then item\<lparr>Item_Type := Lit (tag_Get tag ''type'')\<rparr>
                   else item);
           item = (if Item_Name item = ''root_folder_id'' \<or> Item_Name item = ''root_folder_path''
                   then (let item = (if Item_Default item = []
                                     then item\<lparr>Item_Default := defaultRoot\<rparr> else item)
                         in item\<lparr>Item_Required := (Item_Default item \<noteq> [])\<rparr>)
                   else item);
           item = (if Item_Type item = Lit [] then item\<lparr>Item_Type := Lit ''string''\<rparr> else item)
       in Some item))"

text \<open>
  \<open>getAdditionalItems\<close> walks the fields of a struct type; \<open>NumField\<close> of a type that is
  not a struct panics, which is the result \<open>None\<close>.
\<close>

fun getAdditionalItems :: "gotype \<Rightarrow> string \<Rightarrow> Item list option"
  and getFieldItems :: "(gotype \<times> (string \<times> string) list) list \<Rightarrow> string \<Rightarrow> Item list option"
where
  "getAdditionalItems (StructT n fs) defaultRoot = getFieldItems fs defaultRoot"
| "getAdditionalItems (PointerT t) defaultRoot = None"
| "getAdditionalItems MapT defaultRoot = None"
| "getAdditionalItems (OtherT n) defaultRoot = None"
| "getFieldItems [] defaultRoot = Some []"
| "getFieldItems ((ftype, tag) # fs) defaultRoot =
     (if is_StructT ftype
      then (case getAdditionalItems ftype defaultRoot of
              None \<Rightarrow> None
            | Some sub \<Rightarrow> map_option ((@) sub) (getFieldItems fs defaultRoot))
      else map_option ((@) (case field_item ftype tag defaultRoot of None \<Rightarrow> [] | Some i \<Rightarrow> [i]))
             (getFieldItems fs defaultRoot))"

subsection \<open>Errors\<close>

text \<open>
  Go errors are values. \<open>External\<close> and \<open>NotExist\<close> are errors that come from outside
  the files at hand (the operating system, the plugin library, a remote call);
  \<open>NotExist\<close> are those for which \<open>os.IsNotExist\<close> holds. \<open>Wrapped\<close> is \<open>fmt.Errorf\<close> with
  \<open>%w\<close>.
\<close>

datatype error =
    External string
  | NotExist string
  | NoDriverNamed string
  | PluginNotFound string
  | Wrapped string error

subsection \<open>Operations\<close>

fun strip_pointers :: "gotype \<Rightarrow> gotype" where
  "strip_pointers (PointerT t) = strip_pointers t"
| "strip_pointers t = t"

fun TypeOf :: "Additional \<Rightarrow> gotype option" where
  "TypeOf NilAdditional = None"
| "TypeOf (ValueOf t) = Some t"
| "TypeOf (MapValue ks) = Some MapT"

text \<open>
  \<open>registerDriverItems\<close> takes the registry mutex itself, first thing. With the mutex
  taken, a nil \<open>addition\<close> panics at \<open>Kind\<close>, and so does a type that is neither a map
  nor a struct at \<open>NumField\<close>.
\<close>

definition registerDriverItems ::
  "(Config \<Rightarrow> bool) \<Rightarrow> Config \<Rightarrow> Additional \<Rightarrow> registry \<Rightarrow> registry outcome" where
  "registerDriverItems MustProxy config addition r =
     bind_outcome (rw_Lock (driverMutex r)) (\<lambda>m.
       let r = r\<lparr>driverMutex := m\<rparr> in
       case TypeOf addition of
         None \<Rightarrow> Panics
       | Some t \<Rightarrow>
          (let tAddition = strip_pointers t;
               mainItems = getMainItems MustProxy config
           in case (if tAddition = MapT then Some []
                    else getAdditionalItems tAddition (DefaultRoot config)) of
                None \<Rightarrow> Panics
              | Some additionalItems \<Rightarrow>
                 (let r = r\<lparr>driverInfoMap := (driverInfoMap r)(Name config \<mapsto>
                            \<lparr>Common = mainItems, Additional = additionalItems,
                             Info_Config = config\<rparr>)\<rparr>
                  in bind_outcome (rw_Unlock (driverMutex r)) (\<lambda>m.
                       Returns (r\<lparr>driverMutex := m\<rparr>)))))"

definition RegisterDriver ::
  "(Config \<Rightarrow> bool) \<Rightarrow> DriverConstructor \<Rightarrow> registry \<Rightarrow> registry outcome" where
  "RegisterDriver MustProxy driver r =
     bind_outcome (rw_Lock (driverMutex r)) (\<lambda>m.
       let r = r\<lparr>driverMutex := m\<rparr>;
           tempDriver = construct driver;
           tempConfig = driver_Config tempDriver
       in bind_outcome
            (registerDriverItems MustProxy tempConfig (driver_GetAddition tempDriver) r) (\<lambda>r.
          let r = r\<lparr>driverMap := (driverMap r)(Name tempConfig \<mapsto> driver)\<rparr>
          in bind_outcome (rw_Unlock (driverMutex r)) (\<lambda>m.
               Returns (r\<lparr>driverMutex := m\<rparr>))))"

definition UnregisterDriver :: "string \<Rightarrow> registry \<Rightarrow> registry outcome" where
  "UnregisterDriver name r =
     bind_outcome (rw_Lock (driverMutex r)) (\<lambda>m.
       let r = r\<lparr>driverMutex := m\<rparr>;
           r = r\<lparr>driverMap := (driverMap r)(name := None)\<rparr>;
           r = r\<lparr>driverInfoMap := (driverInfoMap r)(name := None)\<rparr>
       in bind_outcome (rw_Unlock (driverMutex r)) (\<lambda>m.
            Returns (r\<lparr>driverMutex := m\<rparr>)))"

definition IsDriverRegistered :: "string \<Rightarrow> registry \<Rightarrow> (bool \<times> registry) outcome" where
  "IsDriverRegistered name r =
     bind_outcome (rw_RLock (driverMutex r)) (\<lambda>m.
       let r = r\<lparr>driverMutex := m\<rparr>;
           exists = (driverMap r name \<noteq> None)
       in bind_outcome (rw_RUnlock (driverMutex r)) (\<lambda>m.
            Returns (exists, r\<lparr>driverMutex := m\<rparr>)))"

definition GetDriver ::
  "string \<Rightarrow> registry \<Rightarrow> ((error + DriverConstructor) \<times> registry) outcome" where
  "GetDriver name r =
     bind_outcome (rw_RLock (driverMutex r)) (\<lambda>m.
       let r = r\<lparr>driverMutex := m\<rparr>;
           res = (case driverMap r name of
                    None \<Rightarrow> Inl (NoDriverNamed name)
                  | Some n \<Rightarrow> Inr n)
       in bind_outcome (rw_RUnlock (driverMutex r)) (\<lambda>m.
            Returns (res, r\<lparr>driverMutex := m\<rparr>)))"

section \<open>The plugin manager (package plugin, type Manager)\<close>

subsection \<open>What the manager takes from outside\<close>

text \<open>
  \<open>PluginInfo\<close> is what the remote call \<open>Plugin.GetInfo\<close> answers.
\<close>

record PluginInfo =
  PluginInfo_Name :: string
  PluginInfo_Version :: string
  PluginInfo_Description :: string
  PluginInfo_Author :: string

text \<open>
  One run of a plugin executable, as far as \<open>LoadPlugin\<close> looks at it: the result of
  \<open>client.Client()\<close> (which starts the subprocess, performs the handshake and connects),
  of \<open>Dispense\<close>, of \<open>GetInfo\<close> and of \<open>GetDrivers\<close>.
\<close>

record plugin_run =
  run_Client :: "error option"
  run_Dispense :: "error option"
  run_GetInfo :: "error + PluginInfo"
  run_GetDrivers :: "error + string list"

record DirEntry =
  entry_Name :: string
  entry_IsDir :: bool

text \<open>
  The world outside the code: \<open>os.Stat\<close> (its error, if any), \<open>os.ReadDir\<close>,
  \<open>filepath.Join\<close> and \<open>filepath.Ext\<close>, what the executable at a path does when it is
  run as the subprocess of the plugin client with a given number, and the method
  \<open>MustProxy\<close> of \<open>driver.Config\<close>.
\<close>

record env =
  Stat :: "string \<Rightarrow> error option"
  ReadDir :: "string \<Rightarrow> error + DirEntry list"
  Join :: "string \<Rightarrow> string \<Rightarrow> string"
  Ext :: "string \<Rightarrow> string"
  run :: "string \<Rightarrow> nat \<Rightarrow> plugin_run"
  MustProxy :: "Config \<Rightarrow> bool"

fun IsNotExist :: "error option \<Rightarrow> bool" where
  "IsNotExist (Some (NotExist p)) = True"
| "IsNotExist _ = False"

subsection \<open>State\<close>

text \<open>
  A \<open>PluginInstance\<close>. The field \<open>Client\<close> is the number of the plugin client, which
  owns the subprocess; \<open>Inst_Config\<close> holds the keys of the instance's generic map. The
  type of the field \<open>Drivers\<close> is a parameter: a list of names where only the contents
  matter, a slice header where the sharing of the backing array matters.
\<close>

record 'd PluginInstance =
  Inst_Name :: string
  Path :: string
  Client :: nat
  Drivers :: 'd
  Inst_Config :: "string list"

text \<open>
  The lines that the manager logs at the levels warning and error. The lines at the
  levels debug and info are left out.
\<close>

datatype log_entry =
    Warn_already_registered string string
  | Error_failed_to_load string error

text \<open>
  The state that the manager's operations read and write: the registry of package \<open>op\<close>,
  the manager's table and mutex, the number of plugin clients created so far, the set of
  clients whose subprocess has been started and not killed, and the log.
\<close>

record state =
  reg :: registry
  plugins :: "string \<rightharpoonup> string list PluginInstance"
  mu :: rwmutex
  clients :: nat
  running :: "nat set"
  log :: "log_entry list"

text \<open>The manager that \<open>GetManager\<close> creates, beside a registry \<open>r\<close>.\<close>

definition GetManager :: "registry \<Rightarrow> state" where
  "GetManager r =
     \<lparr>reg = r, plugins = Map.empty, mu = rw_free, clients = 0, running = {}, log = []\<rparr>"

definition Kill :: "nat \<Rightarrow> state \<Rightarrow> state" where
  "Kill client s = s\<lparr>running := running s - {client}\<rparr>"

text \<open>\<open>m.mu.Lock(); defer m.mu.Unlock()\<close> around a body.\<close>

definition with_mu_Lock ::
  "(state \<Rightarrow> ('a \<times> state) outcome) \<Rightarrow> state \<Rightarrow> ('a \<times> state) outcome" where
  "with_mu_Lock body s =
     bind_outcome (rw_Lock (mu s)) (\<lambda>m.
     bind_outcome (body (s\<lparr>mu := m\<rparr>)) (\<lambda>(res, s).
     bind_outcome (rw_Unlock (mu s)) (\<lambda>m.
       Returns (res, s\<lparr>mu := m\<rparr>))))"

subsection \<open>Operations\<close>

definition registerPluginDriver :: "env \<Rightarrow> string \<Rightarrow> string \<Rightarrow> nat \<Rightarrow> state \<Rightarrow> state outcome" where
  "registerPluginDriver e driverName pluginName pluginClient s =
     bind_outcome (IsDriverRegistered driverName (reg s)) (\<lambda>(registered, r).
       let s = s\<lparr>reg := r\<rparr> in
       if registered
       then Returns (s\<lparr>log := log s @ [Warn_already_registered driverName pluginName]\<rparr>)
       else
         (let constructor = PluginCtor pluginClient driverName in
          bind_outcome (RegisterDriver (MustProxy e) constructor (reg s)) (\<lambda>r.
            Returns (s\<lparr>reg := r\<rparr>))))"

text \<open>The loop of \<open>LoadPlugin\<close> over the drivers that the plugin reports.\<close>

fun register_drivers :: "env \<Rightarrow> string list \<Rightarrow> string \<Rightarrow> nat \<Rightarrow> state \<Rightarrow> state outcome" where
  "register_drivers e [] pluginName pluginClient s = Returns s"
| "register_drivers e (driverName # drivers) pluginName pluginClient s =
     bind_outcome (registerPluginDriver e driverName pluginName pluginClient s)
       (register_drivers e drivers pluginName pluginClient)"

text \<open>
  The body of \<open>LoadPlugin\<close>, under the manager's mutex. \<open>plugin.NewClient\<close> makes the
  client with the next number; \<open>client.Client()\<close> starts its subprocess, which counts as
  running from then on, whatever the call returns, until \<open>client.Kill()\<close>.
\<close>

definition LoadPlugin_body :: "env \<Rightarrow> string \<Rightarrow> state \<Rightarrow> (error option \<times> state) outcome" where
  "LoadPlugin_body e pluginPath s =
    (case Stat e pluginPath of
       Some err \<Rightarrow> Returns (Some (Wrapped ''plugin file not found'' err), s)
     | None \<Rightarrow>
        (let client = clients s;
             s = s\<lparr>clients := Suc client\<rparr>;
             r = run e pluginPath client;
             s = s\<lparr>running := insert client (running s)\<rparr>
         in case run_Client r of
              Some err \<Rightarrow>
                Returns (Some (Wrapped ''failed to connect to plugin'' err), Kill client s)
            | None \<Rightarrow>
          (case run_Dispense r of
              Some err \<Rightarrow>
                Returns (Some (Wrapped ''failed to get plugin interface'' err), Kill client s)
            | None \<Rightarrow>
          (case run_GetInfo r of
              Inl err \<Rightarrow>
                Returns (Some (Wrapped ''failed to get plugin info'' err), Kill client s)
            | Inr info \<Rightarrow>
          if plugins s (PluginInfo_Name info) \<noteq> None
          then Returns (None, Kill client s)
          else
          (case run_GetDrivers r of
              Inl err \<Rightarrow>
                Returns (Some (Wrapped ''failed to get plugin drivers'' err), Kill client s)
            | Inr drivers \<Rightarrow>
                bind_outcome (register_drivers e drivers (PluginInfo_Name info) client s) (\<lambda>s.
                  let pluginInstance =
                        \<lparr>Inst_Name = PluginInfo_Name info,
                         Path = pluginPath,
                         Client = client,
                         Drivers = drivers,
                         Inst_Config = []\<rparr>
                  in Returns (None,
                       s\<lparr>plugins := (plugins s)(PluginInfo_Name info \<mapsto> pluginInstance)\<rparr>)))))))"

definition LoadPlugin :: "env \<Rightarrow> string \<Rightarrow> state \<Rightarrow> (error option \<times> state) outcome" where
  "LoadPlugin e pluginPath = with_mu_Lock (LoadPlugin_body e pluginPath)"

text \<open>The loop of \<open>UnloadPlugin\<close> over the instance's drivers.\<close>

fun unregister_drivers :: "string list \<Rightarrow> state \<Rightarrow> state outcome" where
  "unregister_drivers [] s = Returns s"
| "unregister_drivers (driverName # drivers) s =
     bind_outcome (UnregisterDriver driverName (reg s)) (\<lambda>r.
       unregister_drivers drivers (s\<lparr>reg := r\<rparr>))"

definition UnloadPlugin_body :: "string \<Rightarrow> state \<Rightarrow> (error option \<times> state) outcome" where
  "UnloadPlugin_body pluginName s =
    (case plugins s pluginName of
       None \<Rightarrow> Returns (Some (PluginNotFound pluginName), s)
     | Some instance \<Rightarrow>
        bind_outcome (unregister_drivers (Drivers instance) s) (\<lambda>s.
          let s = Kill (Client instance) s;
              s = s\<lparr>plugins := (plugins s)(pluginName := None)\<rparr>
          in Returns (None, s)))"

definition UnloadPlugin :: "string \<Rightarrow> state \<Rightarrow> (error option \<times> state) outcome" where
  "UnloadPlugin pluginName = with_mu_Lock (UnloadPlugin_body pluginName)"

text \<open>\<open>ReloadPlugin\<close> reads the table without taking the mutex.\<close>

definition ReloadPlugin :: "env \<Rightarrow> string \<Rightarrow> state \<Rightarrow> (error option \<times> state) outcome" where
  "ReloadPlugin e pluginName s =
    (case plugins s pluginName of
       None \<Rightarrow> Returns (Some (PluginNotFound pluginName), s)
     | Some instance \<Rightarrow>
        (let pluginPath = Path instance in
         bind_outcome (UnloadPlugin pluginName s) (\<lambda>(err, s).
           case err of
             Some err \<Rightarrow> Returns (Some (Wrapped (''failed to unload plugin '' @ pluginName) err), s)
           | None \<Rightarrow>
              bind_outcome (LoadPlugin e pluginPath s) (\<lambda>(err, s).
                case err of
                  Some err \<Rightarrow>
                    Returns (Some (Wrapped (''failed to reload plugin '' @ pluginName) err), s)
                | None \<Rightarrow> Returns (None, s)))))"

text \<open>The loop of \<open>LoadPluginsFromDir\<close> over the entries of the directory.\<close>

fun load_entries :: "env \<Rightarrow> string \<Rightarrow> DirEntry list \<Rightarrow> state \<Rightarrow> state outcome" where
  "load_entries e dir [] s = Returns s"
| "load_entries e dir (entry # entries) s =
    (if entry_IsDir entry then load_entries e dir entries s
     else
      (let name = entry_Name entry in
       if Ext e name = ''.exe'' \<or> Ext e name = []
       then
        (let pluginPath = Join e dir name in
         bind_outcome (LoadPlugin e pluginPath s) (\<lambda>(err, s).
           case err of
             Some err \<Rightarrow>
               load_entries e dir entries
                 (s\<lparr>log := log s @ [Error_failed_to_load pluginPath err]\<rparr>)
           | None \<Rightarrow> load_entries e dir entries s))
       else load_entries e dir entries s))"

definition LoadPluginsFromDir :: "env \<Rightarrow> string \<Rightarrow> state \<Rightarrow> (error option \<times> state) outcome" where
  "LoadPluginsFromDir e dir s =
    (if IsNotExist (Stat e dir) then Returns (None, s)
     else
      (case ReadDir e dir of
         Inl err \<Rightarrow> Returns (Some (Wrapped ''failed to read plugin directory'' err), s)
       | Inr entries \<Rightarrow>
          bind_outcome (load_entries e dir entries s) (\<lambda>s. Returns (None, s))))"

definition pluginDirs :: "string list" where
  "pluginDirs = [''./plugins'', ''./data/plugins'', ''/usr/local/share/openlist/plugins'',
                 ''/opt/openlist/plugins'']"

text \<open>The loop of \<open>RescanPlugins\<close>; an error of a directory is logged at level debug only.\<close>

fun rescan_dirs :: "env \<Rightarrow> string list \<Rightarrow> state \<Rightarrow> state outcome" where
  "rescan_dirs e [] s = Returns s"
| "rescan_dirs e (dir # dirs) s =
     bind_outcome (LoadPluginsFromDir e dir s) (\<lambda>(err, s). rescan_dirs e dirs s)"

definition RescanPlugins :: "env \<Rightarrow> state \<Rightarrow> (error option \<times> state) outcome" where
  "RescanPlugins e s = bind_outcome (rescan_dirs e pluginDirs s) (\<lambda>s. Returns (None, s))"

text \<open>
  \<open>Shutdown\<close> kills the client of every instance, in the order in which the map yields
  them, and replaces the table by an empty one.
\<close>

definition Shutdown :: "state \<Rightarrow> (unit \<times> state) outcome" where
  "Shutdown = with_mu_Lock (\<lambda>s.
     Returns ((), s\<lparr>running := running s - Client ` ran (plugins s), plugins := Map.empty\<rparr>))"

section \<open>The manager's read accessors, with sharing\<close>

text \<open>
  \<open>GetLoadedPlugins\<close> and \<open>GetPluginDrivers\<close> hand out references: a map, and a slice
  whose backing array may be shared. Here the manager's table is a map object in a
  heap, from names to the addresses of \<open>PluginInstance\<close> objects, and the field
  \<open>Drivers\<close> is a slice header that points to a backing array in the heap.
\<close>

record slice =
  slice_array :: nat
  slice_len :: nat
  slice_cap :: nat

record heap =
  h_maps :: "nat \<rightharpoonup> (string \<rightharpoonup> nat)"
  h_instances :: "nat \<rightharpoonup> slice PluginInstance"
  h_arrays :: "nat \<rightharpoonup> string list"
  h_next :: nat

record Manager =
  M_plugins :: nat
  M_mu :: rwmutex

text \<open>The entries of the map at an address; the nil map has none.\<close>

definition map_entries :: "heap \<Rightarrow> nat \<Rightarrow> (string \<rightharpoonup> nat)" where
  "map_entries h a = (case h_maps h a of None \<Rightarrow> Map.empty | Some t \<Rightarrow> t)"

text \<open>
  \<open>GetLoadedPlugins\<close> makes a new map and copies every entry of the table into it; the
  values copied are the addresses of the instances.
\<close>

definition GetLoadedPlugins :: "Manager \<Rightarrow> heap \<Rightarrow> (nat \<times> Manager \<times> heap) outcome" where
  "GetLoadedPlugins m h =
     bind_outcome (rw_RLock (M_mu m)) (\<lambda>l.
       let m = m\<lparr>M_mu := l\<rparr>;
           result = h_next h;
           h = h\<lparr>h_maps := (h_maps h)(result \<mapsto> Map.empty), h_next := Suc result\<rparr>;
           h = h\<lparr>h_maps := (h_maps h)(result \<mapsto> map_entries h (M_plugins m))\<rparr>
       in bind_outcome (rw_RUnlock (M_mu m)) (\<lambda>l.
            Returns (result, m\<lparr>M_mu := l\<rparr>, h)))"

text \<open>
  \<open>GetPluginDrivers\<close> returns the slice header that the instance holds. An entry whose
  address holds no instance is a nil pointer, and reading through it panics.
\<close>

definition GetPluginDrivers ::
  "Manager \<Rightarrow> string \<Rightarrow> heap \<Rightarrow> ((error + slice) \<times> Manager \<times> heap) outcome" where
  "GetPluginDrivers m pluginName h =
     bind_outcome (rw_RLock (M_mu m)) (\<lambda>l.
       let m = m\<lparr>M_mu := l\<rparr> in
       case map_entries h (M_plugins m) pluginName of
         None \<Rightarrow>
           bind_outcome (rw_RUnlock (M_mu m)) (\<lambda>l.
             Returns (Inl (PluginNotFound pluginName), m\<lparr>M_mu := l\<rparr>, h))
       | Some p \<Rightarrow>
          (case h_instances h p of
             None \<Rightarrow> Panics
           | Some inst \<Rightarrow>
               bind_outcome (rw_RUnlock (M_mu m)) (\<lambda>l.
                 Returns (Inr (Drivers inst), m\<lparr>M_mu := l\<rparr>, h))))"

text \<open>
  What a caller can do to a map or a slice that it holds: \<open>m[k] = p\<close> (which panics on
  the nil map), \<open>delete(m, k)\<close>, and \<open>s[i] = v\<close> (which panics out of range).
\<close>

definition map_assign :: "nat \<Rightarrow> string \<Rightarrow> nat \<Rightarrow> heap \<Rightarrow> heap outcome" where
  "map_assign a k p h =
     (case h_maps h a of
        None \<Rightarrow> Panics
      | Some t \<Rightarrow> Returns (h\<lparr>h_maps := (h_maps h)(a \<mapsto> t(k \<mapsto> p))\<rparr>))"

definition map_delete :: "nat \<Rightarrow> string \<Rightarrow> heap \<Rightarrow> heap outcome" where
  "map_delete a k h =
     (case h_maps h a of
        None \<Rightarrow> Returns h
      | Some t \<Rightarrow> Returns (h\<lparr>h_maps := (h_maps h)(a \<mapsto> t(k := None))\<rparr>))"

definition slice_assign :: "slice \<Rightarrow> nat \<Rightarrow> string \<Rightarrow> heap \<Rightarrow> heap outcome" where
  "slice_assign sl i v h =
     (case h_arrays h (slice_array sl) of
        None \<Rightarrow> Panics
      | Some xs \<Rightarrow>
          if i < slice_len sl \<and> i < length xs
          then Returns (h\<lparr>h_arrays := (h_arrays h)(slice_array sl \<mapsto> xs[i := v])\<rparr>)
          else Panics)"

text \<open>
  The contents of a slice, and the table as the manager's operations read it: through
  the map, the instance and the backing array of its drivers.
\<close>

definition read_slice :: "heap \<Rightarrow> slice \<Rightarrow> string list" where
  "read_slice h sl =
     (case h_arrays h (slice_array sl) of None \<Rightarrow> [] | Some xs \<Rightarrow> take (slice_len sl) xs)"

definition table :: "Manager \<Rightarrow> heap \<Rightarrow> (string \<rightharpoonup> string list PluginInstance)" where
  "table m h = (\<lambda>name.
     case map_entries h (M_plugins m) name of
       None \<Rightarrow> None
     | Some p \<Rightarrow>
        (case h_instances h p of
           None \<Rightarrow> None
         | Some inst \<Rightarrow>
             Some \<lparr>Inst_Name = Inst_Name inst, Path = Path inst, Client = Client inst,
                   Drivers = read_slice h (Drivers inst), Inst_Config = Inst_Config inst\<rparr>))"

section \<open>Notions used in the properties\<close>

text \<open>The registry without the entries of some names, in both maps.\<close>

definition remove_drivers :: "string list \<Rightarrow> registry \<Rightarrow> registry" where
  "remove_drivers names r =
     r\<lparr>driverMap := driverMap r |` (- set names),
       driverInfoMap := driverInfoMap r |` (- set names)\<rparr>"

text \<open>
  What holds of the manager between two calls: both mutexes are free, every entry of the
  table is stored under the identity name that it records, and the numbers of the plugin
  clients in use are below the number of clients created so far.
\<close>

definition manager_inv :: "state \<Rightarrow> bool" where
  "manager_inv s \<longleftrightarrow>
     mu s = rw_free \<and> driverMutex (reg s) = rw_free \<and>
     (\<forall>n inst. plugins s n = Some inst \<longrightarrow> Inst_Name inst = n \<and> Client inst < clients s) \<and>
     (\<forall>c \<in> running s. c < clients s)"

text \<open>
  The states that the manager goes through: the manager that \<open>GetManager\<close> creates,
  beside any registry, and the state after any call of a public operation that returns.
\<close>

inductive reachable :: "env \<Rightarrow> state \<Rightarrow> bool" for e :: env where
  start: "driverMutex r = rw_free \<Longrightarrow> reachable e (GetManager r)"
| load: "reachable e s \<Longrightarrow> LoadPlugin e pluginPath s = Returns (err, s') \<Longrightarrow> reachable e s'"
| unload: "reachable e s \<Longrightarrow> UnloadPlugin pluginName s = Returns (err, s') \<Longrightarrow> reachable e s'"
| reload: "reachable e s \<Longrightarrow> ReloadPlugin e pluginName s = Returns (err, s') \<Longrightarrow> reachable e s'"
| load_dir: "reachable e s \<Longrightarrow> LoadPluginsFromDir e dir s = Returns (err, s') \<Longrightarrow> reachable e s'"
| rescan: "reachable e s \<Longrightarrow> RescanPlugins e s = Returns (err, s') \<Longrightarrow> reachable e s'"
| shutdown: "reachable e s \<Longrightarrow> Shutdown s = Returns (u, s') \<Longrightarrow> reachable e s'"

text \<open>
  Reload as the specification words it: unload followed by load of the same path, failing
  if either step fails.
\<close>

definition reload_spec :: "env \<Rightarrow> string \<Rightarrow> state \<Rightarrow> (error option \<times> state) outcome" where
  "reload_spec e pluginName s =
    (case plugins s pluginName of
       None \<Rightarrow> UnloadPlugin pluginName s
     | Some inst \<Rightarrow>
        bind_outcome (UnloadPlugin pluginName s) (\<lambda>(err, s).
          case err of
            Some err \<Rightarrow> Returns (Some err, s)
          | None \<Rightarrow> LoadPlugin e (Path inst) s))"

text \<open>
  What a caller observes of a call that ends: whether it succeeded, and the state. The
  text of the error is left out.
\<close>

fun observe :: "(error option \<times> state) outcome \<Rightarrow> (bool \<times> state) outcome" where
  "observe Blocked = Blocked"
| "observe Panics = Panics"
| "observe (Returns (err, s)) = Returns (err = None, s)"

text \<open>The entries of a directory that \<open>LoadPluginsFromDir\<close> tries to load.\<close>

definition candidates :: "env \<Rightarrow> DirEntry list \<Rightarrow> DirEntry list" where
  "candidates e entries =
     filter (\<lambda>entry. \<not> entry_IsDir entry \<and>
                      (Ext e (entry_Name entry) = ''.exe'' \<or> Ext e (entry_Name entry) = []))
       entries"

section \<open>Example inputs\<close>

text \<open>A registry with no driver and a free mutex.\<close>

definition registry0 :: registry where
  "registry0 = \<lparr>driverMap = Map.empty, driverInfoMap = Map.empty, driverMutex = rw_free\<rparr>"

text \<open>A registry that holds the built-in driver \<open>Local\<close>.\<close>

definition config_Local :: Config where
  "config_Local =
     \<lparr>Name = ''Local'', LocalSort = True, OnlyLinkMFile = False, OnlyProxy = False,
      NoCache = True, NoUpload = False, NeedMs = False, DefaultRoot = ''/'',
      CheckStatus = False, Alert = [], NoOverwriteUpload = False, ProxyRangeOption = False,
      NoLinkURL = False\<rparr>"

definition ctor_Local :: DriverConstructor where
  "ctor_Local = BuiltinCtor config_Local (ValueOf (PointerT (StructT ''Addition'' [])))"

definition registry_Local :: registry where
  "registry_Local =
     \<lparr>driverMap = [''Local'' \<mapsto> ctor_Local],
      driverInfoMap = [''Local'' \<mapsto>
         \<lparr>Common = getMainItems OnlyProxy config_Local, Additional = [],
          Info_Config = config_Local\<rparr>],
      driverMutex = rw_free\<rparr>"

text \<open>
  A run of a plugin that answers every call, with an identity name and a list of
  drivers, and a run whose handshake fails.
\<close>

definition run_ok :: "string \<Rightarrow> string list \<Rightarrow> plugin_run" where
  "run_ok name drivers =
     \<lparr>run_Client = None, run_Dispense = None,
      run_GetInfo = Inr \<lparr>PluginInfo_Name = name, PluginInfo_Version = ''1.0'',
                         PluginInfo_Description = [], PluginInfo_Author = []\<rparr>,
      run_GetDrivers = Inr drivers\<rparr>"

definition run_broken :: plugin_run where
  "run_broken =
     \<lparr>run_Client = Some (External ''handshake failed''), run_Dispense = None,
      run_GetInfo = Inl (External ''no connection''),
      run_GetDrivers = Inl (External ''no connection'')\<rparr>"

text \<open>The extension of a file name without separators, as \<open>filepath.Ext\<close> gives it.\<close>

definition example_Ext :: "string \<Rightarrow> string" where
  "example_Ext name =
     (if CHR ''.'' \<in> set name
      then CHR ''.'' # rev (takeWhile (\<lambda>c. c \<noteq> CHR ''.'') (rev name))
      else [])"

text \<open>
  A world with one plugin directory, \<open>plugins\<close>: a subdirectory, an executable whose
  handshake fails, a text file, and the plugin \<open>demo\<close>, whose only driver is named
  \<open>Local\<close> like the built-in one.
\<close>

definition env_demo :: env where
  "env_demo =
     \<lparr>Stat = (\<lambda>p. if p \<in> {''plugins'', ''plugins/demo'', ''plugins/broken''} then None
                  else Some (NotExist p)),
      ReadDir = (\<lambda>d. if d = ''plugins''
                     then Inr [\<lparr>entry_Name = ''old'', entry_IsDir = True\<rparr>,
                               \<lparr>entry_Name = ''broken'', entry_IsDir = False\<rparr>,
                               \<lparr>entry_Name = ''notes.txt'', entry_IsDir = False\<rparr>,
                               \<lparr>entry_Name = ''demo'', entry_IsDir = False\<rparr>]
                     else Inl (NotExist d)),
      Join = (\<lambda>d n. d @ ''/'' @ n),
      Ext = example_Ext,
      run = (\<lambda>p c. if p = ''plugins/demo'' then run_ok ''demo'' [''Local''] else run_broken),
      MustProxy = OnlyProxy\<rparr>"

text \<open>The state after \<open>demo\<close> has been loaded beside the registry with \<open>Local\<close>.\<close>

definition state_demo :: state where
  "state_demo =
     \<lparr>reg = registry_Local,
      plugins = [''demo'' \<mapsto> \<lparr>Inst_Name = ''demo'', Path = ''plugins/demo'', Client = 0,
                               Drivers = [''Local''], Inst_Config = []\<rparr>],
      mu = rw_free, clients = 1, running = {0},
      log = [Warn_already_registered ''Local'' ''demo'']\<rparr>"

text \<open>The state after the directory \<open>plugins\<close> has been scanned from the start.\<close>

definition state_scanned :: state where
  "state_scanned =
     \<lparr>reg = registry_Local,
      plugins = [''demo'' \<mapsto> \<lparr>Inst_Name = ''demo'', Path = ''plugins/demo'', Client = 1,
                               Drivers = [''Local''], Inst_Config = []\<rparr>],
      mu = rw_free, clients = 2, running = {1},
      log = [Error_failed_to_load ''plugins/broken''
               (Wrapped ''failed to connect to plugin'' (External ''handshake failed'')),
             Warn_already_registered ''Local'' ''demo'']\<rparr>"





text \<open>A heap where the manager's table holds \<open>demo\<close> with the drivers \<open>[DemoFS]\<close>.\<close>

definition manager_demo :: Manager where
  "manager_demo = \<lparr>M_plugins = 0, M_mu = rw_free\<rparr>"

definition slice_demo :: slice where
  "slice_demo = \<lparr>slice_array = 0, slice_len = 1, slice_cap = 1\<rparr>"

definition heap_demo :: heap where
  "heap_demo =
     \<lparr>h_maps = [0 \<mapsto> [''demo'' \<mapsto> 0]],
      h_instances = [0 \<mapsto> \<lparr>Inst_Name = ''demo'', Path = ''plugins/demo'', Client = 0,
                            Drivers = slice_demo, Inst_Config = []\<rparr>],
      h_arrays = [0 \<mapsto> [''DemoFS'']],
      h_next = 1\<rparr>"

section \<open>Properties of the registry\<close>

lemma rw_Lock_free [simp]: "rw_Lock rw_free = Returns (rw_free\<lparr>writer := True\<rparr>)"
  by (simp add: rw_Lock_def rw_free_def)

lemma rw_Lock_held [simp]: "rw_Lock (m\<lparr>writer := True\<rparr>) = Blocked"
  by (simp add: rw_Lock_def)

lemma rw_Unlock_held [simp]: "rw_Unlock (rw_free\<lparr>writer := True\<rparr>) = Returns rw_free"
  by (simp add: rw_Unlock_def rw_free_def)

lemma rw_RLock_free [simp]: "rw_RLock rw_free = Returns (rw_free\<lparr>readers := Suc 0\<rparr>)"
  by (simp add: rw_RLock_def rw_free_def)

lemma rw_RUnlock_one [simp]: "rw_RUnlock (rw_free\<lparr>readers := Suc 0\<rparr>) = Returns rw_free"
  by (simp add: rw_RUnlock_def rw_free_def)

lemma registerDriverItems_under_lock:
  "writer (driverMutex r) \<Longrightarrow> registerDriverItems mp config addition r = Blocked"
  by (simp add: registerDriverItems_def rw_Lock_def)

lemma RegisterDriver_Blocked: "RegisterDriver mp driver r = Blocked"
proof (cases "rw_Lock (driverMutex r)")
  case Blocked
  then show ?thesis by (simp add: RegisterDriver_def)
next
  case Panics
  then show ?thesis by (simp add: rw_Lock_def split: if_splits)
next
  case (Returns m)
  then have "writer m" by (auto simp: rw_Lock_def split: if_splits)
  with Returns show ?thesis
    by (simp add: RegisterDriver_def Let_def registerDriverItems_under_lock)
qed

text \<open>
  C1. \<open>RegisterDriver\<close> never returns, whatever the constructor and the registry: it
  takes the registry mutex and, holding it, calls \<open>registerDriverItems\<close>, which waits for
  the same mutex, as it does whenever it is entered with the mutex held by a writer. No
  registration through \<open>RegisterDriver\<close> takes effect.
\<close>

theorem RegisterDriver_never_returns:
  "RegisterDriver mp driver r = Blocked \<and>
   registerDriverItems mp config addition
     (r\<lparr>driverMutex := (driverMutex r)\<lparr>writer := True\<rparr>\<rparr>) = Blocked"
proof
  show "RegisterDriver mp driver r = Blocked"
  proof (cases "writer (driverMutex r) \<or> readers (driverMutex r) > 0")
    case True
    then show ?thesis by (simp add: RegisterDriver_def rw_Lock_def)
  next
    case False
    then have "rw_Lock (driverMutex r) = Returns ((driverMutex r)\<lparr>writer := True\<rparr>)"
      by (simp add: rw_Lock_def)
    then show ?thesis
      by (simp add: RegisterDriver_def Let_def registerDriverItems_def rw_Lock_def)
  qed
next
  show "registerDriverItems mp config addition
          (r\<lparr>driverMutex := (driverMutex r)\<lparr>writer := True\<rparr>\<rparr>) = Blocked"
    by (simp add: registerDriverItems_def rw_Lock_def)
qed

text \<open>
  Entered with the registry mutex free, \<open>registerDriverItems\<close> on the adapter's
  configuration and addition takes the branch of the map and records the main items and
  an empty list of additional items. The only caller, \<open>RegisterDriver\<close>, holds the mutex.
\<close>

lemma registerDriverItems_adapter:
  assumes "driverMutex r = rw_free"
  shows "registerDriverItems mp (adapter_Config a) (adapter_GetAddition a) r =
           Returns (r\<lparr>driverInfoMap := (driverInfoMap r)(Adapter_driverName a \<mapsto>
                      \<lparr>Common = getMainItems mp (adapter_Config a),
                       Additional = [],
                       Info_Config = adapter_Config a\<rparr>)\<rparr>)"
proof -
  have cfg: "Name (adapter_Config a) = Adapter_driverName a"
    by (simp add: adapter_Config_def)
  show ?thesis
    using assms by (simp add: registerDriverItems_def adapter_GetAddition_def cfg Let_def)
qed

text \<open>
  C10. The adapter's \<open>Config\<close> is a fixed descriptor: its name is the bound driver name,
  its default root is \<open>/\<close>, its alert is empty and all its boolean options are false; it
  does not depend on the plugin client, which it does not call. \<open>GetAddition\<close> returns an
  empty generic map. The registry, however, records nothing for the driver: the
  constructor of a plugin driver reaches \<open>registerDriverItems\<close> through \<open>RegisterDriver\<close>
  only, which holds the registry mutex, and there \<open>registerDriverItems\<close> waits for that
  mutex; \<open>RegisterDriver\<close> never returns, on the empty registry as on any other.
\<close>

theorem adapter_items_never_recorded:
  "Name (adapter_Config a) = Adapter_driverName a \<and>
   DefaultRoot (adapter_Config a) = ''/'' \<and>
   Alert (adapter_Config a) = [] \<and>
   \<not> LocalSort (adapter_Config a) \<and> \<not> OnlyLinkMFile (adapter_Config a) \<and>
   \<not> OnlyProxy (adapter_Config a) \<and> \<not> NoCache (adapter_Config a) \<and>
   \<not> NoUpload (adapter_Config a) \<and> \<not> NeedMs (adapter_Config a) \<and>
   \<not> CheckStatus (adapter_Config a) \<and> \<not> NoOverwriteUpload (adapter_Config a) \<and>
   \<not> ProxyRangeOption (adapter_Config a) \<and> \<not> NoLinkURL (adapter_Config a) \<and>
   adapter_Config (a\<lparr>Adapter_pluginClient := c\<rparr>) = adapter_Config a \<and>
   adapter_GetAddition a = MapValue [] \<and>
   driver_Config (construct (PluginCtor c n)) = adapter_Config (NewPluginDriverAdapter c n) \<and>
   driver_GetAddition (construct (PluginCtor c n)) = MapValue [] \<and>
   registerDriverItems mp (adapter_Config a) (adapter_GetAddition a)
     (r\<lparr>driverMutex := (driverMutex r)\<lparr>writer := True\<rparr>\<rparr>) = Blocked \<and>
   RegisterDriver mp (PluginCtor c n) r = Blocked \<and>
   RegisterDriver OnlyProxy (PluginCtor 0 ''DemoFS'') registry0 = Blocked"
proof -
  have blocked: "registerDriverItems mp (adapter_Config a) (adapter_GetAddition a)
     (r\<lparr>driverMutex := (driverMutex r)\<lparr>writer := True\<rparr>\<rparr>) = Blocked"
    by (rule registerDriverItems_under_lock) simp
  have never: "RegisterDriver mp' (PluginCtor c' n') r' = Blocked" for mp' c' n' r'
    by (rule RegisterDriver_Blocked)
  show ?thesis
    using blocked never by (simp add: adapter_Config_def adapter_GetAddition_def)
qed

section \<open>Properties of the manager\<close>

subsection \<open>Each operation, entered with the mutexes free\<close>

lemma IsDriverRegistered_free:
  "driverMutex r = rw_free \<Longrightarrow>
   IsDriverRegistered name r = Returns (driverMap r name \<noteq> None, r)"
  by (simp add: IsDriverRegistered_def)

lemma UnregisterDriver_free:
  "driverMutex r = rw_free \<Longrightarrow>
   UnregisterDriver name r =
     Returns (r\<lparr>driverMap := (driverMap r)(name := None),
               driverInfoMap := (driverInfoMap r)(name := None)\<rparr>)"
  by (simp add: UnregisterDriver_def)

lemma GetDriver_free:
  "driverMutex r = rw_free \<Longrightarrow>
   GetDriver name r =
     Returns (case driverMap r name of None \<Rightarrow> Inl (NoDriverNamed name) | Some n \<Rightarrow> Inr n, r)"
  by (simp add: GetDriver_def)

lemma registerPluginDriver_free:
  "driverMutex (reg s) = rw_free \<Longrightarrow>
   registerPluginDriver e driverName pluginName client s =
     (if driverMap (reg s) driverName \<noteq> None
      then Returns (s\<lparr>log := log s @ [Warn_already_registered driverName pluginName]\<rparr>)
      else Blocked)"
  by (simp add: registerPluginDriver_def IsDriverRegistered_free RegisterDriver_Blocked)

lemma register_drivers_free:
  "driverMutex (reg s) = rw_free \<Longrightarrow>
   register_drivers e drivers pluginName client s =
     (if \<forall>d \<in> set drivers. driverMap (reg s) d \<noteq> None
      then Returns (s\<lparr>log := log s @ map (\<lambda>d. Warn_already_registered d pluginName) drivers\<rparr>)
      else Blocked)"
proof (induction drivers arbitrary: s)
  case Nil
  then show ?case by simp
next
  case (Cons d ds)
  show ?case
  proof (cases "driverMap (reg s) d \<noteq> None")
    case True
    let ?s = "s\<lparr>log := log s @ [Warn_already_registered d pluginName]\<rparr>"
    have "driverMutex (reg ?s) = rw_free" using Cons.prems by simp
    from Cons.IH [OF this] True Cons.prems show ?thesis
      by (simp add: registerPluginDriver_free)
  next
    case False
    with Cons.prems show ?thesis by (simp add: registerPluginDriver_free)
  qed
qed

lemma unregister_drivers_free:
  "driverMutex (reg s) = rw_free \<Longrightarrow>
   unregister_drivers drivers s = Returns (s\<lparr>reg := remove_drivers drivers (reg s)\<rparr>)"
proof (induction drivers arbitrary: s)
  case Nil
  then show ?case by (simp add: remove_drivers_def restrict_map_def)
next
  case (Cons d ds)
  let ?r = "(reg s)\<lparr>driverMap := (driverMap (reg s))(d := None),
                       driverInfoMap := (driverInfoMap (reg s))(d := None)\<rparr>"
  have free: "driverMutex (reg (s\<lparr>reg := ?r\<rparr>)) = rw_free" using Cons.prems by simp
  have eq: "remove_drivers ds ?r = remove_drivers (d # ds) (reg s)"
    by (auto simp: remove_drivers_def restrict_map_def fun_eq_iff)
  show ?case
    using Cons.prems Cons.IH [OF free] eq by (simp add: UnregisterDriver_free)
qed

lemma with_mu_Lock_free:
  "mu s = rw_free \<Longrightarrow>
   with_mu_Lock body s =
     bind_outcome (body (s\<lparr>mu := rw_free\<lparr>writer := True\<rparr>\<rparr>)) (\<lambda>(res, s).
       bind_outcome (rw_Unlock (mu s)) (\<lambda>m. Returns (res, s\<lparr>mu := m\<rparr>)))"
  by (simp add: with_mu_Lock_def)

lemma UnloadPlugin_free:
  assumes "mu s = rw_free" "driverMutex (reg s) = rw_free"
  shows "UnloadPlugin pluginName s =
    (case plugins s pluginName of
       None \<Rightarrow> Returns (Some (PluginNotFound pluginName), s)
     | Some instance \<Rightarrow>
         Returns (None, s\<lparr>reg := remove_drivers (Drivers instance) (reg s),
                           running := running s - {Client instance},
                           plugins := (plugins s)(pluginName := None)\<rparr>))"
  using assms
  by (simp add: UnloadPlugin_def with_mu_Lock_free UnloadPlugin_body_def
      unregister_drivers_free Kill_def split: option.splits)

lemma LoadPlugin_stat_error:
  assumes "mu s = rw_free" "Stat e pluginPath = Some err"
  shows "LoadPlugin e pluginPath s = Returns (Some (Wrapped ''plugin file not found'' err), s)"
  using assms by (simp add: LoadPlugin_def with_mu_Lock_free LoadPlugin_body_def)

lemma LoadPlugin_Client_error:
  assumes "mu s = rw_free" "Stat e pluginPath = None"
    and "run_Client (run e pluginPath (clients s)) = Some err"
  shows "LoadPlugin e pluginPath s =
     Returns (Some (Wrapped ''failed to connect to plugin'' err),
              s\<lparr>clients := Suc (clients s), running := running s - {clients s}\<rparr>)"
  using assms by (simp add: LoadPlugin_def with_mu_Lock_free LoadPlugin_body_def Kill_def Let_def)

lemma LoadPlugin_Dispense_error:
  assumes "mu s = rw_free" "Stat e pluginPath = None"
    and "run_Client (run e pluginPath (clients s)) = None"
    and "run_Dispense (run e pluginPath (clients s)) = Some err"
  shows "LoadPlugin e pluginPath s =
     Returns (Some (Wrapped ''failed to get plugin interface'' err),
              s\<lparr>clients := Suc (clients s), running := running s - {clients s}\<rparr>)"
  using assms by (simp add: LoadPlugin_def with_mu_Lock_free LoadPlugin_body_def Kill_def Let_def)

lemma LoadPlugin_GetInfo_error:
  assumes "mu s = rw_free" "Stat e pluginPath = None"
    and "run_Client (run e pluginPath (clients s)) = None"
    and "run_Dispense (run e pluginPath (clients s)) = None"
    and "run_GetInfo (run e pluginPath (clients s)) = Inl err"
  shows "LoadPlugin e pluginPath s =
     Returns (Some (Wrapped ''failed to get plugin info'' err),
              s\<lparr>clients := Suc (clients s), running := running s - {clients s}\<rparr>)"
  using assms by (simp add: LoadPlugin_def with_mu_Lock_free LoadPlugin_body_def Kill_def Let_def)

lemma LoadPlugin_already_loaded:
  assumes "mu s = rw_free" "Stat e pluginPath = None"
    and "run_Client (run e pluginPath (clients s)) = None"
    and "run_Dispense (run e pluginPath (clients s)) = None"
    and "run_GetInfo (run e pluginPath (clients s)) = Inr info"
    and "plugins s (PluginInfo_Name info) = Some instance"
  shows "LoadPlugin e pluginPath s =
     Returns (None, s\<lparr>clients := Suc (clients s), running := running s - {clients s}\<rparr>)"
  using assms by (simp add: LoadPlugin_def with_mu_Lock_free LoadPlugin_body_def Kill_def Let_def)

lemma LoadPlugin_GetDrivers_error:
  assumes "mu s = rw_free" "Stat e pluginPath = None"
    and "run_Client (run e pluginPath (clients s)) = None"
    and "run_Dispense (run e pluginPath (clients s)) = None"
    and "run_GetInfo (run e pluginPath (clients s)) = Inr info"
    and "plugins s (PluginInfo_Name info) = None"
    and "run_GetDrivers (run e pluginPath (clients s)) = Inl err"
  shows "LoadPlugin e pluginPath s =
     Returns (Some (Wrapped ''failed to get plugin drivers'' err),
              s\<lparr>clients := Suc (clients s), running := running s - {clients s}\<rparr>)"
  using assms by (simp add: LoadPlugin_def with_mu_Lock_free LoadPlugin_body_def Kill_def Let_def)

lemma LoadPlugin_new:
  assumes "mu s = rw_free" "driverMutex (reg s) = rw_free" "Stat e pluginPath = None"
    and "run_Client (run e pluginPath (clients s)) = None"
    and "run_Dispense (run e pluginPath (clients s)) = None"
    and "run_GetInfo (run e pluginPath (clients s)) = Inr info"
    and "plugins s (PluginInfo_Name info) = None"
    and "run_GetDrivers (run e pluginPath (clients s)) = Inr drivers"
  shows "LoadPlugin e pluginPath s =
     (if \<forall>d \<in> set drivers. driverMap (reg s) d \<noteq> None
      then Returns (None,
             s\<lparr>clients := Suc (clients s),
               running := insert (clients s) (running s),
               log := log s @ map (\<lambda>d. Warn_already_registered d (PluginInfo_Name info)) drivers,
               plugins := (plugins s)(PluginInfo_Name info \<mapsto>
                  \<lparr>Inst_Name = PluginInfo_Name info, Path = pluginPath, Client = clients s,
                   Drivers = drivers, Inst_Config = []\<rparr>)\<rparr>)
      else Blocked)"
  using assms
  by (simp add: LoadPlugin_def with_mu_Lock_free LoadPlugin_body_def Kill_def Let_def
      register_drivers_free)


lemma LoadPlugin_Returns_cases:
  assumes free: "mu s = rw_free" "driverMutex (reg s) = rw_free"
    and ret: "LoadPlugin e pluginPath s = Returns (err, s')"
  obtains
    (no_file) "s' = s" "err \<noteq> None"
  | (killed) "s' = s\<lparr>clients := Suc (clients s), running := running s - {clients s}\<rparr>"
  | (loaded) info :: PluginInfo and drivers where
      "plugins s (PluginInfo_Name info) = None"
      "\<forall>d \<in> set drivers. driverMap (reg s) d \<noteq> None"
      "err = None"
      "s' = s\<lparr>clients := Suc (clients s),
               running := insert (clients s) (running s),
               log := log s @ map (\<lambda>d. Warn_already_registered d (PluginInfo_Name info)) drivers,
               plugins := (plugins s)(PluginInfo_Name info \<mapsto>
                  \<lparr>Inst_Name = PluginInfo_Name info, Path = pluginPath, Client = clients s,
                   Drivers = drivers, Inst_Config = []\<rparr>)\<rparr>"
proof (cases "Stat e pluginPath")
  case (Some a)
  with free ret no_file show ?thesis by (auto simp: LoadPlugin_stat_error)
next
  case None
  note st = this
  let ?r = "run e pluginPath (clients s)"
  show ?thesis
  proof (cases "run_Client ?r")
    case (Some a)
    with free st ret killed show ?thesis by (simp add: LoadPlugin_Client_error)
  next
    case None
    note cl = this
    show ?thesis
    proof (cases "run_Dispense ?r")
      case (Some a)
      with free st cl ret killed show ?thesis by (simp add: LoadPlugin_Dispense_error)
    next
      case None
      note di = this
      show ?thesis
      proof (cases "run_GetInfo ?r")
        case (Inl a)
        with free st cl di ret killed show ?thesis by (simp add: LoadPlugin_GetInfo_error)
      next
        case (Inr info)
        note inf = this
        show ?thesis
        proof (cases "plugins s (PluginInfo_Name info)")
          case (Some inst)
          from LoadPlugin_already_loaded [OF free(1) st cl di inf Some] ret killed
          show ?thesis by simp
        next
          case None
          note fresh = this
          show ?thesis
          proof (cases "run_GetDrivers ?r")
            case (Inl a)
            from LoadPlugin_GetDrivers_error [OF free(1) st cl di inf fresh Inl] ret killed
            show ?thesis by simp
          next
            case (Inr drivers)
            from LoadPlugin_new [OF free st cl di inf fresh Inr] ret
            have "\<forall>d \<in> set drivers. driverMap (reg s) d \<noteq> None"
              by (simp split: if_splits)
            with LoadPlugin_new [OF free st cl di inf fresh Inr] ret loaded [OF fresh]
            show ?thesis by (simp split: if_splits)
          qed
        qed
      qed
    qed
  qed
qed

lemma LoadPlugin_reg:
  assumes "mu s = rw_free" "driverMutex (reg s) = rw_free"
    and "LoadPlugin e pluginPath s = Returns (err, s')"
  shows "reg s' = reg s"
  using assms by (cases rule: LoadPlugin_Returns_cases) simp_all

subsection \<open>What holds between two calls\<close>

lemma LoadPlugin_inv:
  assumes "manager_inv s" "LoadPlugin e pluginPath s = Returns (err, s')"
  shows "manager_inv s'"
proof -
  from assms(1) have free: "mu s = rw_free" "driverMutex (reg s) = rw_free"
    by (simp_all add: manager_inv_def)
  from free assms(2) show ?thesis
  proof (cases rule: LoadPlugin_Returns_cases)
    case no_file
    with assms(1) show ?thesis by simp
  next
    case killed
    with assms(1) show ?thesis by (fastforce simp: manager_inv_def)
  next
    case (loaded info drivers)
    with assms(1) show ?thesis by (fastforce simp: manager_inv_def)
  qed
qed

lemma UnloadPlugin_inv:
  assumes "manager_inv s" "UnloadPlugin pluginName s = Returns (err, s')"
  shows "manager_inv s'"
proof -
  from assms(1) have free: "mu s = rw_free" "driverMutex (reg s) = rw_free"
    by (simp_all add: manager_inv_def)
  from assms show ?thesis
    by (auto simp: UnloadPlugin_free [OF free] manager_inv_def remove_drivers_def
        split: option.splits if_splits)
qed

lemma ReloadPlugin_Returns:
  assumes "ReloadPlugin e pluginName s = Returns (err, s')"
  obtains
    (absent) "plugins s pluginName = None" "s' = s" "err = Some (PluginNotFound pluginName)"
  | (unload_failed) inst err1 where
      "plugins s pluginName = Some inst"
      "UnloadPlugin pluginName s = Returns (Some err1, s')"
      "err = Some (Wrapped (''failed to unload plugin '' @ pluginName) err1)"
  | (reloaded) inst s1 err2 where
      "plugins s pluginName = Some inst"
      "UnloadPlugin pluginName s = Returns (None, s1)"
      "LoadPlugin e (Path inst) s1 = Returns (err2, s')"
      "err = map_option (Wrapped (''failed to reload plugin '' @ pluginName)) err2"
proof (cases "plugins s pluginName")
  case None
  with assms have "s' = s" "err = Some (PluginNotFound pluginName)"
    by (auto simp: ReloadPlugin_def)
  with None show ?thesis by (rule absent)
next
  case (Some inst)
  note inst = this
  show ?thesis
  proof (cases "UnloadPlugin pluginName s")
    case Blocked
    with assms inst show ?thesis by (simp add: ReloadPlugin_def)
  next
    case Panics
    with assms inst show ?thesis by (simp add: ReloadPlugin_def)
  next
    case (Returns p)
    obtain err1 s1 where p: "p = (err1, s1)" by (cases p)
    note un = Returns [unfolded p]
    show ?thesis
    proof (cases err1)
      case (Some a)
      with assms inst un have "s' = s1"
        and "err = Some (Wrapped (''failed to unload plugin '' @ pluginName) a)"
        by (auto simp: ReloadPlugin_def)
      with un Some show ?thesis by (intro unload_failed [OF inst, of a]) simp_all
    next
      case None
      note e1 = this
      show ?thesis
      proof (cases "LoadPlugin e (Path inst) s1")
        case Blocked
        with assms inst un e1 show ?thesis by (simp add: ReloadPlugin_def)
      next
        case Panics
        with assms inst un e1 show ?thesis by (simp add: ReloadPlugin_def)
      next
        case (Returns q)
        obtain err2 s2 where q: "q = (err2, s2)" by (cases q)
        from assms inst un e1 Returns q have "s' = s2"
          and "err = map_option (Wrapped (''failed to reload plugin '' @ pluginName)) err2"
          by (auto simp: ReloadPlugin_def split: option.splits)
        with un e1 Returns q show ?thesis
          by (intro reloaded [OF inst, of s1 err2]) simp_all
      qed
    qed
  qed
qed

lemma ReloadPlugin_inv:
  assumes "manager_inv s" "ReloadPlugin e pluginName s = Returns (err, s')"
  shows "manager_inv s'"
  using assms(2)
proof (cases rule: ReloadPlugin_Returns)
  case absent
  with assms(1) show ?thesis by simp
next
  case (unload_failed inst err1)
  with assms(1) show ?thesis by (blast intro: UnloadPlugin_inv)
next
  case (reloaded inst s1 err2)
  with assms(1) show ?thesis by (blast intro: UnloadPlugin_inv LoadPlugin_inv)
qed

lemma manager_inv_log: "manager_inv (s\<lparr>log := l\<rparr>) = manager_inv s"
  by (simp add: manager_inv_def)

lemma load_entries_inv:
  "manager_inv s \<Longrightarrow> load_entries e dir entries s = Returns s' \<Longrightarrow> manager_inv s'"
proof (induction entries arbitrary: s)
  case Nil
  then show ?case by simp
next
  case (Cons entry entries)
  show ?case
  proof (cases "entry_IsDir entry \<or> \<not> (Ext e (entry_Name entry) = ''.exe'' \<or> Ext e (entry_Name entry) = [])")
    case True
    with Cons show ?thesis by (auto simp: Let_def split: if_splits)
  next
    case False
    show ?thesis
    proof (cases "LoadPlugin e (Join e dir (entry_Name entry)) s")
      case (Returns p)
      obtain err1 s1 where p: "p = (err1, s1)" by (cases p)
      from LoadPlugin_inv [OF Cons.prems(1)] Returns p have "manager_inv s1" by simp
      then have "manager_inv (s1\<lparr>log := l\<rparr>)" for l by (simp add: manager_inv_log)
      with \<open>manager_inv s1\<close> Cons.IH Cons.prems(2) False Returns p show ?thesis
        by (auto simp: Let_def split: option.splits)
    qed (use Cons.prems(2) False in auto)
  qed
qed

lemma LoadPluginsFromDir_inv:
  "manager_inv s \<Longrightarrow> LoadPluginsFromDir e dir s = Returns (err, s') \<Longrightarrow> manager_inv s'"
  by (cases "load_entries e dir (projr (ReadDir e dir)) s")
     (auto simp: LoadPluginsFromDir_def split: if_splits sum.splits dest: load_entries_inv)

lemma rescan_dirs_inv:
  "manager_inv s \<Longrightarrow> rescan_dirs e dirs s = Returns s' \<Longrightarrow> manager_inv s'"
proof (induction dirs arbitrary: s)
  case Nil
  then show ?case by simp
next
  case (Cons dir dirs)
  show ?case
  proof (cases "LoadPluginsFromDir e dir s")
    case (Returns p)
    obtain err1 s1 where p: "p = (err1, s1)" by (cases p)
    from LoadPluginsFromDir_inv [OF Cons.prems(1)] Returns p have "manager_inv s1" by simp
    with Cons.IH Cons.prems(2) Returns p show ?thesis by simp
  qed (use Cons.prems(2) in simp_all)
qed

lemma RescanPlugins_inv:
  "manager_inv s \<Longrightarrow> RescanPlugins e s = Returns (err, s') \<Longrightarrow> manager_inv s'"
  by (cases "rescan_dirs e pluginDirs s") (auto simp: RescanPlugins_def dest: rescan_dirs_inv)

lemma Shutdown_inv:
  assumes "manager_inv s" "Shutdown s = Returns (u, s')"
  shows "manager_inv s'"
proof -
  from assms(1) have "mu s = rw_free" by (simp add: manager_inv_def)
  with assms show ?thesis
    by (auto simp: Shutdown_def with_mu_Lock_free manager_inv_def)
qed

lemma reachable_inv: "reachable e s \<Longrightarrow> manager_inv s"
proof (induction rule: reachable.induct)
  case (start r)
  then show ?case by (simp add: manager_inv_def GetManager_def)
next
  case (load s pluginPath err s')
  then show ?case by (blast intro: LoadPlugin_inv)
next
  case (unload s pluginName err s')
  then show ?case by (blast intro: UnloadPlugin_inv)
next
  case (reload s pluginName err s')
  then show ?case by (blast intro: ReloadPlugin_inv)
next
  case (load_dir s dir err s')
  then show ?case by (blast intro: LoadPluginsFromDir_inv)
next
  case (rescan s err s')
  then show ?case by (blast intro: RescanPlugins_inv)
next
  case (shutdown s u s')
  then show ?case by (blast intro: Shutdown_inv)
qed

subsection \<open>Reload and the scan of a directory\<close>

lemma observe_bind:
  "observe (bind_outcome x (\<lambda>(err, s). case err of Some err \<Rightarrow> Returns (Some (f err), s)
                                               | None \<Rightarrow> Returns (None, s))) = observe x"
  by (cases x) (auto split: option.splits)

lemma ReloadPlugin_observe:
  assumes "mu s = rw_free"
  shows "observe (ReloadPlugin e pluginName s) = observe (reload_spec e pluginName s)"
proof (cases "plugins s pluginName")
  case None
  with assms show ?thesis
    by (simp add: ReloadPlugin_def reload_spec_def UnloadPlugin_def with_mu_Lock_free
        UnloadPlugin_body_def)
next
  case (Some inst)
  show ?thesis
  proof (cases "UnloadPlugin pluginName s")
    case (Returns p)
    obtain err1 s1 where p: "p = (err1, s1)" by (cases p)
    show ?thesis
    proof (cases err1)
      case None
      with Some Returns p show ?thesis
        by (simp add: ReloadPlugin_def reload_spec_def observe_bind)
    next
      case (Some a)
      with \<open>plugins s pluginName = Some inst\<close> Returns p show ?thesis
        by (simp add: ReloadPlugin_def reload_spec_def)
    qed
  qed (use Some in \<open>simp_all add: ReloadPlugin_def reload_spec_def\<close>)
qed

lemma ReloadPlugin_loaded:
  assumes free: "mu s = rw_free" "driverMutex (reg s) = rw_free"
    and loaded: "plugins s pluginName = Some inst"
    and ret: "ReloadPlugin e pluginName s = Returns (err, s')"
  obtains err2 where
    "LoadPlugin e (Path inst)
       (s\<lparr>reg := remove_drivers (Drivers inst) (reg s),
          running := running s - {Client inst},
          plugins := (plugins s)(pluginName := None)\<rparr>) = Returns (err2, s')"
    "err = map_option (Wrapped (''failed to reload plugin '' @ pluginName)) err2"
  using ret
proof (cases rule: ReloadPlugin_Returns)
  case absent
  with loaded show ?thesis by simp
next
  case (unload_failed inst' err1)
  with loaded free show ?thesis by (simp add: UnloadPlugin_free)
next
  case (reloaded inst' sa err2)
  with loaded free that [of err2] show ?thesis by (simp add: UnloadPlugin_free)
qed

lemma load_entries_candidates:
  "load_entries e dir entries s = load_entries e dir (candidates e entries) s"
proof (induction entries arbitrary: s)
  case Nil
  show ?case by (simp add: candidates_def)
next
  case (Cons entry entries)
  show ?case
  proof (cases "\<not> entry_IsDir entry \<and>
                 (Ext e (entry_Name entry) = ''.exe'' \<or> Ext e (entry_Name entry) = [])")
    case True
    then have c: "candidates e (entry # entries) = entry # candidates e entries"
      by (simp add: candidates_def)
    have "load_entries e dir (entry # entries) s =
          bind_outcome (LoadPlugin e (Join e dir (entry_Name entry)) s) (\<lambda>(err, s).
            case err of
              Some err \<Rightarrow> load_entries e dir entries
                 (s\<lparr>log := log s @ [Error_failed_to_load (Join e dir (entry_Name entry)) err]\<rparr>)
            | None \<Rightarrow> load_entries e dir entries s)"
      using True by (simp add: Let_def)
    also have "\<dots> =
          bind_outcome (LoadPlugin e (Join e dir (entry_Name entry)) s) (\<lambda>(err, s).
            case err of
              Some err \<Rightarrow> load_entries e dir (candidates e entries)
                 (s\<lparr>log := log s @ [Error_failed_to_load (Join e dir (entry_Name entry)) err]\<rparr>)
            | None \<Rightarrow> load_entries e dir (candidates e entries) s)"
      by (simp only: Cons.IH)
    also have "\<dots> = load_entries e dir (entry # candidates e entries) s"
      using True by (simp add: Let_def)
    finally show ?thesis by (simp only: c)
  next
    case False
    then have c: "candidates e (entry # entries) = candidates e entries"
      by (auto simp: candidates_def)
    from False have "load_entries e dir (entry # entries) s = load_entries e dir entries s"
      by (auto simp: Let_def)
    with Cons.IH c show ?thesis by simp
  qed
qed

subsection \<open>The example inputs\<close>

lemma env_demo_simps [simp]:
  "Stat env_demo ''plugins/demo'' = None"
  "Stat env_demo ''plugins/broken'' = None"
  "Stat env_demo ''plugins'' = None"
  "run env_demo ''plugins/demo'' c = run_ok ''demo'' [''Local'']"
  "run env_demo ''plugins/broken'' c = run_broken"
  "Join env_demo d n = d @ ''/'' @ n"
  "Ext env_demo = example_Ext"
  by (simp_all add: env_demo_def)

lemma run_ok_simps [simp]:
  "run_Client (run_ok name drivers) = None"
  "run_Dispense (run_ok name drivers) = None"
  "run_GetInfo (run_ok name drivers) =
     Inr \<lparr>PluginInfo_Name = name, PluginInfo_Version = ''1.0'',
          PluginInfo_Description = [], PluginInfo_Author = []\<rparr>"
  "run_GetDrivers (run_ok name drivers) = Inr drivers"
  by (simp_all add: run_ok_def)

lemma GetManager_simps [simp]:
  "reg (GetManager r) = r" "plugins (GetManager r) = Map.empty" "mu (GetManager r) = rw_free"
  "clients (GetManager r) = 0" "running (GetManager r) = {}" "log (GetManager r) = []"
  by (simp_all add: GetManager_def)

lemma registry_Local_simps [simp]:
  "driverMutex registry_Local = rw_free"
  "driverMap registry_Local = [''Local'' \<mapsto> ctor_Local]"
  by (simp_all add: registry_Local_def)

lemma example_Ext_simps [simp]:
  "example_Ext ''old'' = []" "example_Ext ''broken'' = []"
  "example_Ext ''notes.txt'' = ''.txt''" "example_Ext ''demo'' = []"
  by (simp_all add: example_Ext_def)

lemma load_demo: "LoadPlugin env_demo ''plugins/demo'' (GetManager registry_Local) =
                    Returns (None, state_demo)"
proof -
  have "LoadPlugin env_demo ''plugins/demo'' (GetManager registry_Local) =
     Returns (None, (GetManager registry_Local)\<lparr>clients := Suc 0, running := {0},
        log := [Warn_already_registered ''Local'' ''demo''],
        plugins := [''demo'' \<mapsto> \<lparr>Inst_Name = ''demo'', Path = ''plugins/demo'', Client = 0,
                               Drivers = [''Local''], Inst_Config = []\<rparr>]\<rparr>)"
    using LoadPlugin_new [of "GetManager registry_Local" env_demo "''plugins/demo''"
        "\<lparr>PluginInfo_Name = ''demo'', PluginInfo_Version = ''1.0'',
          PluginInfo_Description = [], PluginInfo_Author = []\<rparr>" "[''Local'']"]
    by simp
  then show ?thesis by (simp add: state_demo_def GetManager_def)
qed

lemma reachable_state_demo: "reachable env_demo state_demo"
  using reachable.load [OF reachable.start load_demo] by simp

lemma load_broken:
  "LoadPlugin env_demo ''plugins/broken'' (GetManager registry_Local) =
     Returns (Some (Wrapped ''failed to connect to plugin'' (External ''handshake failed'')),
              (GetManager registry_Local)\<lparr>clients := Suc 0\<rparr>)"
  using LoadPlugin_Client_error [of "GetManager registry_Local" env_demo "''plugins/broken''"
      "External ''handshake failed''"]
  by (simp add: run_broken_def)

lemma load_demo_after_broken:
  "LoadPlugin env_demo ''plugins/demo''
     ((GetManager registry_Local)\<lparr>clients := Suc 0,
        log := [Error_failed_to_load ''plugins/broken''
               (Wrapped ''failed to connect to plugin'' (External ''handshake failed''))]\<rparr>) =
   Returns (None, state_scanned)"
proof -
  let ?s = "(GetManager registry_Local)\<lparr>clients := Suc 0,
        log := [Error_failed_to_load ''plugins/broken''
               (Wrapped ''failed to connect to plugin'' (External ''handshake failed''))]\<rparr>"
  show ?thesis
    using LoadPlugin_new [of ?s env_demo "''plugins/demo''"
        "\<lparr>PluginInfo_Name = ''demo'', PluginInfo_Version = ''1.0'',
          PluginInfo_Description = [], PluginInfo_Author = []\<rparr>" "[''Local'']"]
    by simp (simp add: state_scanned_def GetManager_def)
qed

lemma scan_plugins:
  "LoadPluginsFromDir env_demo ''plugins'' (GetManager registry_Local) =
     Returns (None, state_scanned)"
proof -
  have rd: "ReadDir env_demo ''plugins'' =
      Inr [\<lparr>entry_Name = ''old'', entry_IsDir = True\<rparr>,
           \<lparr>entry_Name = ''broken'', entry_IsDir = False\<rparr>,
           \<lparr>entry_Name = ''notes.txt'', entry_IsDir = False\<rparr>,
           \<lparr>entry_Name = ''demo'', entry_IsDir = False\<rparr>]"
    by (simp add: env_demo_def)
  show ?thesis
    by (simp add: LoadPluginsFromDir_def rd Let_def load_broken load_demo_after_broken)
qed






subsection \<open>The properties of the specification\<close>

text \<open>
  C2. Unloading a plugin unregisters every name in the instance's list of drivers, and
  that list holds every name that the plugin reported, also a name whose registration
  was skipped because a built-in driver held it. Here the plugin \<open>demo\<close> reports the
  driver \<open>Local\<close> beside the built-in \<open>Local\<close>: the load skips it, the lookup of \<open>Local\<close>
  still gives the built-in constructor, and after \<open>demo\<close> is unloaded the lookup of
  \<open>Local\<close> fails.
\<close>

theorem unload_removes_colliding_builtin:
  "LoadPlugin env_demo ''plugins/demo'' (GetManager registry_Local) = Returns (None, state_demo) \<and>
   GetDriver ''Local'' (reg state_demo) = Returns (Inr ctor_Local, reg state_demo) \<and>
   (\<exists>s'. UnloadPlugin ''demo'' state_demo = Returns (None, s') \<and>
         GetDriver ''Local'' (reg s') = Returns (Inl (NoDriverNamed ''Local''), reg s'))"
proof -
  have free: "mu state_demo = rw_free" "driverMutex (reg state_demo) = rw_free"
    by (simp_all add: state_demo_def)
  have "GetDriver ''Local'' (reg state_demo) = Returns (Inr ctor_Local, reg state_demo)"
    by (simp add: GetDriver_free [OF free(2)]) (simp add: state_demo_def)
  moreover have "\<exists>s'. UnloadPlugin ''demo'' state_demo = Returns (None, s') \<and>
         GetDriver ''Local'' (reg s') = Returns (Inl (NoDriverNamed ''Local''), reg s')"
    by (simp add: UnloadPlugin_free [OF free])
       (simp add: state_demo_def GetDriver_free remove_drivers_def)
  ultimately show ?thesis using load_demo by simp
qed

text \<open>
  C3. When the name of a remote driver is already registered, \<open>registerPluginDriver\<close>
  logs a warning and changes nothing else, and the lookup of the name gives the
  constructor stored before, also after the whole load of the plugin.
\<close>

theorem collision_keeps_first_registration:
  assumes "mu s = rw_free" "driverMutex (reg s) = rw_free"
    and "driverMap (reg s) driverName = Some ctor"
    and "LoadPlugin e pluginPath s = Returns (err, s')"
  shows "registerPluginDriver e driverName pluginName client s =
           Returns (s\<lparr>log := log s @ [Warn_already_registered driverName pluginName]\<rparr>) \<and>
         GetDriver driverName (reg s) = Returns (Inr ctor, reg s) \<and>
         GetDriver driverName (reg s') = Returns (Inr ctor, reg s')"
proof -
  from assms(1,2,4) have "reg s' = reg s" by (rule LoadPlugin_reg)
  with assms(2,3) show ?thesis
    by (simp add: registerPluginDriver_free GetDriver_free)
qed

theorem collision_keeps_first_registration_witness:
  "mu (GetManager registry_Local) = rw_free \<and>
   driverMutex (reg (GetManager registry_Local)) = rw_free \<and>
   driverMap (reg (GetManager registry_Local)) ''Local'' = Some ctor_Local \<and>
   LoadPlugin env_demo ''plugins/demo'' (GetManager registry_Local) = Returns (None, state_demo) \<and>
   registerPluginDriver env_demo ''Local'' ''demo'' 0 (GetManager registry_Local) =
     Returns ((GetManager registry_Local)\<lparr>log := [Warn_already_registered ''Local'' ''demo'']\<rparr>) \<and>
   GetDriver ''Local'' (reg state_demo) = Returns (Inr ctor_Local, reg state_demo)"
proof -
  have h1: "mu (GetManager registry_Local) = rw_free" by simp
  have h2: "driverMutex (reg (GetManager registry_Local)) = rw_free" by simp
  have h3: "driverMap (reg (GetManager registry_Local)) ''Local'' = Some ctor_Local" by simp
  show ?thesis
    using collision_keeps_first_registration [OF h1 h2 h3 load_demo, where pluginName = "''demo''" and client = 0]
      h1 h2 h3 load_demo
    by simp
qed

text \<open>
  C4. In every state that the manager goes through, each entry of the table is stored
  under the identity name it records, so there is at most one entry for an identity
  name. Loading a plugin whose identity name is already in the table returns success
  and changes nothing but the count of clients created: the table, the registry, the log
  and the set of running subprocesses are as before, and the new subprocess is not among
  them. A scan that meets the file of such a plugin does the same.
\<close>

theorem second_load_is_noop:
  assumes "reachable e s" "Stat e pluginPath = None"
    and "run_Client (run e pluginPath (clients s)) = None"
    and "run_Dispense (run e pluginPath (clients s)) = None"
    and "run_GetInfo (run e pluginPath (clients s)) = Inr info"
    and "plugins s (PluginInfo_Name info) = Some inst"
  shows "(\<forall>n i. plugins s n = Some i \<longrightarrow> Inst_Name i = n) \<and>
         clients s \<notin> running s \<and>
         LoadPlugin e pluginPath s = Returns (None, s\<lparr>clients := Suc (clients s)\<rparr>) \<and>
         (\<forall>dir entry.
             \<not> entry_IsDir entry \<longrightarrow>
             Ext e (entry_Name entry) = ''.exe'' \<or> Ext e (entry_Name entry) = [] \<longrightarrow>
             Join e dir (entry_Name entry) = pluginPath \<longrightarrow>
             load_entries e dir [entry] s = Returns (s\<lparr>clients := Suc (clients s)\<rparr>))"
proof -
  from assms(1) have inv: "manager_inv s" by (rule reachable_inv)
  then have free: "mu s = rw_free" and fresh: "clients s \<notin> running s"
    by (auto simp: manager_inv_def)
  from fresh have "running s - {clients s} = running s" by simp
  with LoadPlugin_already_loaded [OF free assms(2-6)]
  have load: "LoadPlugin e pluginPath s = Returns (None, s\<lparr>clients := Suc (clients s)\<rparr>)"
    by simp
  then have "load_entries e dir [entry] s = Returns (s\<lparr>clients := Suc (clients s)\<rparr>)"
    if "\<not> entry_IsDir entry"
      "Ext e (entry_Name entry) = ''.exe'' \<or> Ext e (entry_Name entry) = []"
      "Join e dir (entry_Name entry) = pluginPath" for dir entry
    using that by (auto simp: Let_def)
  with load inv fresh show ?thesis
    by (simp add: manager_inv_def)
qed

theorem second_load_is_noop_witness:
  "reachable env_demo state_demo \<and>
   Stat env_demo ''plugins/demo'' = None \<and>
   run_GetInfo (run env_demo ''plugins/demo'' (clients state_demo)) =
     Inr \<lparr>PluginInfo_Name = ''demo'', PluginInfo_Version = ''1.0'',
          PluginInfo_Description = [], PluginInfo_Author = []\<rparr> \<and>
   plugins state_demo ''demo'' =
     Some \<lparr>Inst_Name = ''demo'', Path = ''plugins/demo'', Client = 0,
           Drivers = [''Local''], Inst_Config = []\<rparr> \<and>
   Ext env_demo ''demo'' = [] \<and>
   Join env_demo ''plugins'' ''demo'' = ''plugins/demo'' \<and>
   LoadPlugin env_demo ''plugins/demo'' state_demo =
     Returns (None, state_demo\<lparr>clients := Suc (clients state_demo)\<rparr>) \<and>
   load_entries env_demo ''plugins'' [\<lparr>entry_Name = ''demo'', entry_IsDir = False\<rparr>] state_demo =
     Returns (state_demo\<lparr>clients := Suc (clients state_demo)\<rparr>)"
proof -
  have h2: "Stat env_demo ''plugins/demo'' = None" by simp
  have h3: "run_Client (run env_demo ''plugins/demo'' (clients state_demo)) = None" by simp
  have h4: "run_Dispense (run env_demo ''plugins/demo'' (clients state_demo)) = None" by simp
  have h5: "run_GetInfo (run env_demo ''plugins/demo'' (clients state_demo)) =
     Inr \<lparr>PluginInfo_Name = ''demo'', PluginInfo_Version = ''1.0'',
          PluginInfo_Description = [], PluginInfo_Author = []\<rparr>" by simp
  have h6: "plugins state_demo (PluginInfo_Name \<lparr>PluginInfo_Name = ''demo'',
          PluginInfo_Version = ''1.0'', PluginInfo_Description = [], PluginInfo_Author = []\<rparr>) =
     Some \<lparr>Inst_Name = ''demo'', Path = ''plugins/demo'', Client = 0,
           Drivers = [''Local''], Inst_Config = []\<rparr>" by (simp add: state_demo_def)
  have h7: "\<not> entry_IsDir \<lparr>entry_Name = ''demo'', entry_IsDir = False\<rparr>"
    "Ext env_demo (entry_Name \<lparr>entry_Name = ''demo'', entry_IsDir = False\<rparr>) = []"
    "Join env_demo ''plugins'' (entry_Name \<lparr>entry_Name = ''demo'', entry_IsDir = False\<rparr>) =
       ''plugins/demo''"
    by simp_all
  from second_load_is_noop [OF reachable_state_demo h2 h3 h4 h5 h6]
  have "LoadPlugin env_demo ''plugins/demo'' state_demo =
          Returns (None, state_demo\<lparr>clients := Suc (clients state_demo)\<rparr>)"
    and "load_entries env_demo ''plugins'' [\<lparr>entry_Name = ''demo'', entry_IsDir = False\<rparr>]
           state_demo = Returns (state_demo\<lparr>clients := Suc (clients state_demo)\<rparr>)"
    using h7 by blast+
  with reachable_state_demo h2 h5 h6 h7 show ?thesis by simp
qed

text \<open>
  C5. When \<open>client.Client()\<close> (start, handshake and connection), \<open>Dispense\<close>, \<open>GetInfo\<close>
  or, for a plugin not yet loaded, \<open>GetDrivers\<close> fails, \<open>LoadPlugin\<close> returns an error, the
  subprocess that it started is not running afterwards and no other subprocess was
  started, and the table, the registry and the log are as before the call.
\<close>

theorem failed_load_leaves_no_trace:
  assumes "mu s = rw_free" "Stat e pluginPath = None"
    and "run_Client (run e pluginPath (clients s)) \<noteq> None \<or>
         run_Dispense (run e pluginPath (clients s)) \<noteq> None \<or>
         isl (run_GetInfo (run e pluginPath (clients s))) \<or>
         (\<exists>info. run_GetInfo (run e pluginPath (clients s)) = Inr info \<and>
                 plugins s (PluginInfo_Name info) = None \<and>
                 isl (run_GetDrivers (run e pluginPath (clients s))))"
  shows "\<exists>err s'. LoadPlugin e pluginPath s = Returns (Some err, s') \<and>
           plugins s' = plugins s \<and> reg s' = reg s \<and> log s' = log s \<and>
           clients s \<notin> running s' \<and> running s' \<subseteq> running s"
proof -
  let ?r = "run e pluginPath (clients s)"
  let ?s' = "s\<lparr>clients := Suc (clients s), running := running s - {clients s}\<rparr>"
  have "\<exists>err. LoadPlugin e pluginPath s = Returns (Some err, ?s')"
  proof (cases "run_Client ?r")
    case (Some a)
    from LoadPlugin_Client_error [OF assms(1,2) Some] show ?thesis by blast
  next
    case None
    note cl = this
    show ?thesis
    proof (cases "run_Dispense ?r")
      case (Some a)
      from LoadPlugin_Dispense_error [OF assms(1,2) cl Some] show ?thesis by blast
    next
      case None
      note di = this
      show ?thesis
      proof (cases "run_GetInfo ?r")
        case (Inl a)
        from LoadPlugin_GetInfo_error [OF assms(1,2) cl di Inl] show ?thesis by blast
      next
        case (Inr info)
        with assms(3) cl di have fresh: "plugins s (PluginInfo_Name info) = None"
          and "isl (run_GetDrivers ?r)" by auto
        then obtain a where "run_GetDrivers ?r = Inl a" by (cases "run_GetDrivers ?r") auto
        from LoadPlugin_GetDrivers_error [OF assms(1,2) cl di Inr fresh this]
        show ?thesis by blast
      qed
    qed
  qed
  then obtain err where "LoadPlugin e pluginPath s = Returns (Some err, ?s')" ..
  then show ?thesis by auto
qed

theorem failed_load_leaves_no_trace_witness:
  "mu state_demo = rw_free \<and> Stat env_demo ''plugins/broken'' = None \<and>
   run_Client (run env_demo ''plugins/broken'' (clients state_demo)) =
     Some (External ''handshake failed'') \<and>
   (\<exists>err s'. LoadPlugin env_demo ''plugins/broken'' state_demo = Returns (Some err, s') \<and>
      plugins s' = plugins state_demo \<and> reg s' = reg state_demo \<and> log s' = log state_demo \<and>
      clients state_demo \<notin> running s' \<and> running s' \<subseteq> running state_demo)"
proof -
  have h1: "mu state_demo = rw_free" by (simp add: state_demo_def)
  have h2: "Stat env_demo ''plugins/broken'' = None" by simp
  have h3: "run_Client (run env_demo ''plugins/broken'' (clients state_demo)) =
     Some (External ''handshake failed'')" by (simp add: run_broken_def)
  show ?thesis
    using failed_load_leaves_no_trace [OF h1 h2] h1 h2 h3
    by simp
qed

text \<open>
  What holds of \<open>ReloadPlugin\<close> on a loaded plugin, entered with the mutexes free: a
  reload that returns success has registered nothing, the registry being the one left by
  the unload; a reload that returns an error leaves the plugin without an entry and its
  original subprocess not running; and reload of a name that is not in the table fails
  with the not-found error and changes nothing.
\<close>

lemma ReloadPlugin_registers_nothing:
  assumes "mu s = rw_free" "driverMutex (reg s) = rw_free"
    and "plugins s pluginName = Some inst"
    and "ReloadPlugin e pluginName s = Returns (err, s1)"
  shows "reg s1 = remove_drivers (Drivers inst) (reg s)"
proof -
  let ?sa = "s\<lparr>reg := remove_drivers (Drivers inst) (reg s),
               running := running s - {Client inst},
               plugins := (plugins s)(pluginName := None)\<rparr>"
  have fa: "mu ?sa = rw_free" "driverMutex (reg ?sa) = rw_free"
    using assms(1,2) by (simp_all add: remove_drivers_def)
  from assms obtain err2 where "LoadPlugin e (Path inst) ?sa = Returns (err2, s1)"
    by (rule ReloadPlugin_loaded)
  with fa have "reg s1 = reg ?sa" by (rule LoadPlugin_reg)
  then show ?thesis by simp
qed

lemma ReloadPlugin_failure_unloads:
  assumes "mu s = rw_free" "driverMutex (reg s) = rw_free"
    and "plugins s pluginName = Some inst"
    and "ReloadPlugin e pluginName s = Returns (Some err, s2)"
  shows "plugins s2 pluginName = None \<and> Client inst \<notin> running s2"
proof -
  let ?sa = "s\<lparr>reg := remove_drivers (Drivers inst) (reg s),
               running := running s - {Client inst},
               plugins := (plugins s)(pluginName := None)\<rparr>"
  have fa: "mu ?sa = rw_free" "driverMutex (reg ?sa) = rw_free"
    using assms(1,2) by (simp_all add: remove_drivers_def)
  from assms obtain err3 where
    l2: "LoadPlugin e (Path inst) ?sa = Returns (err3, s2)"
    and e3: "Some err = map_option (Wrapped (''failed to reload plugin '' @ pluginName)) err3"
    by (rule ReloadPlugin_loaded)
  from fa l2 show ?thesis
  proof (cases rule: LoadPlugin_Returns_cases)
    case no_file
    then show ?thesis by simp
  next
    case killed
    then show ?thesis by simp
  next
    case (loaded info drivers)
    with e3 show ?thesis by simp
  qed
qed

lemma ReloadPlugin_absent:
  "plugins s pluginName = None \<Longrightarrow>
   ReloadPlugin e pluginName s = Returns (Some (PluginNotFound pluginName), s)"
  by (simp add: ReloadPlugin_def)


text \<open>
  C9. \<open>LoadPluginsFromDir\<close> on a directory that does not exist returns success and leaves
  the state as it is. On a directory that can be read, a subdirectory is passed over;
  when the load of a candidate file fails, the error is logged and the scan goes on with
  the remaining entries; the whole scan is the scan of the candidate files alone, and it
  returns success whenever it returns.
\<close>

theorem LoadPluginsFromDir_best_effort:
  assumes "IsNotExist (Stat e missing)"
    and "entry_IsDir sub"
    and "\<not> entry_IsDir file"
    and "Ext e (entry_Name file) = ''.exe'' \<or> Ext e (entry_Name file) = []"
    and "LoadPlugin e (Join e dir (entry_Name file)) s = Returns (Some err, s1)"
    and "\<not> IsNotExist (Stat e dir)" "ReadDir e dir = Inr entries"
  shows "LoadPluginsFromDir e missing s = Returns (None, s) \<and>
         load_entries e dir (sub # rest) s = load_entries e dir rest s \<and>
         load_entries e dir (file # rest) s =
           load_entries e dir rest
             (s1\<lparr>log := log s1 @ [Error_failed_to_load (Join e dir (entry_Name file)) err]\<rparr>) \<and>
         load_entries e dir entries s = load_entries e dir (candidates e entries) s \<and>
         LoadPluginsFromDir e dir s =
           bind_outcome (load_entries e dir entries s) (\<lambda>s'. Returns (None, s'))"
  using assms by (simp add: LoadPluginsFromDir_def Let_def load_entries_candidates [symmetric])

theorem LoadPluginsFromDir_best_effort_witness:
  "IsNotExist (Stat env_demo ''data/plugins'') \<and>
   entry_IsDir \<lparr>entry_Name = ''old'', entry_IsDir = True\<rparr> \<and>
   example_Ext ''broken'' = [] \<and>
   LoadPlugin env_demo ''plugins/broken'' (GetManager registry_Local) =
     Returns (Some (Wrapped ''failed to connect to plugin'' (External ''handshake failed'')),
              (GetManager registry_Local)\<lparr>clients := Suc 0\<rparr>) \<and>
   LoadPluginsFromDir env_demo ''data/plugins'' (GetManager registry_Local) =
     Returns (None, GetManager registry_Local) \<and>
   load_entries env_demo ''plugins''
     [\<lparr>entry_Name = ''broken'', entry_IsDir = False\<rparr>,
      \<lparr>entry_Name = ''notes.txt'', entry_IsDir = False\<rparr>,
      \<lparr>entry_Name = ''demo'', entry_IsDir = False\<rparr>] (GetManager registry_Local) =
   load_entries env_demo ''plugins''
     [\<lparr>entry_Name = ''notes.txt'', entry_IsDir = False\<rparr>,
      \<lparr>entry_Name = ''demo'', entry_IsDir = False\<rparr>]
     ((GetManager registry_Local)\<lparr>clients := Suc 0,
        log := [Error_failed_to_load ''plugins/broken''
               (Wrapped ''failed to connect to plugin'' (External ''handshake failed''))]\<rparr>) \<and>
   LoadPluginsFromDir env_demo ''plugins'' (GetManager registry_Local) =
     Returns (None, state_scanned) \<and>
   map_option Client (plugins state_scanned ''demo'') = Some 1"
proof -
  have h1: "IsNotExist (Stat env_demo ''data/plugins'')" by (simp add: env_demo_def)
  have h2: "entry_IsDir \<lparr>entry_Name = ''old'', entry_IsDir = True\<rparr>" by simp
  have h3: "\<not> entry_IsDir \<lparr>entry_Name = ''broken'', entry_IsDir = False\<rparr>" by simp
  have h4: "Ext env_demo (entry_Name \<lparr>entry_Name = ''broken'', entry_IsDir = False\<rparr>) = ''.exe'' \<or>
            Ext env_demo (entry_Name \<lparr>entry_Name = ''broken'', entry_IsDir = False\<rparr>) = []"
    by simp
  have h5: "LoadPlugin env_demo
      (Join env_demo ''plugins'' (entry_Name \<lparr>entry_Name = ''broken'', entry_IsDir = False\<rparr>))
      (GetManager registry_Local) =
     Returns (Some (Wrapped ''failed to connect to plugin'' (External ''handshake failed'')),
              (GetManager registry_Local)\<lparr>clients := Suc 0\<rparr>)"
    using load_broken by simp
  have h6: "\<not> IsNotExist (Stat env_demo ''plugins'')" by simp
  have h7: "ReadDir env_demo ''plugins'' =
      Inr [\<lparr>entry_Name = ''old'', entry_IsDir = True\<rparr>,
           \<lparr>entry_Name = ''broken'', entry_IsDir = False\<rparr>,
           \<lparr>entry_Name = ''notes.txt'', entry_IsDir = False\<rparr>,
           \<lparr>entry_Name = ''demo'', entry_IsDir = False\<rparr>]"
    by (simp add: env_demo_def)
  have more: "map_option Client (plugins state_scanned ''demo'') = Some 1"
    by (simp add: state_scanned_def)
  show ?thesis
    using LoadPluginsFromDir_best_effort [OF h1 h2 h3 h4 h5 h6 h7,
        where rest = "[\<lparr>entry_Name = ''notes.txt'', entry_IsDir = False\<rparr>,
                       \<lparr>entry_Name = ''demo'', entry_IsDir = False\<rparr>]"]
      h1 h2 load_broken scan_plugins more
    by simp
qed

section \<open>Properties of the read accessors\<close>

text \<open>
  The map that \<open>GetLoadedPlugins\<close> returns is a new one: assigning to it or deleting from
  it leaves the table as the manager reads it.
\<close>

lemma GetLoadedPlugins_copy:
  assumes "M_mu m = rw_free" "M_plugins m < h_next h"
  shows "\<exists>h'. GetLoadedPlugins m h = Returns (h_next h, m, h') \<and>
           h_next h \<noteq> M_plugins m \<and>
           map_entries h' (h_next h) = map_entries h (M_plugins m) \<and>
           table m h' = table m h \<and>
           (\<forall>k p h''. map_assign (h_next h) k p h' = Returns h'' \<longrightarrow> table m h'' = table m h) \<and>
           (\<forall>k h''. map_delete (h_next h) k h' = Returns h'' \<longrightarrow> table m h'' = table m h)"
  using assms
  by (auto simp: GetLoadedPlugins_def Let_def map_entries_def table_def map_assign_def
      map_delete_def read_slice_def fun_eq_iff split: option.splits)

text \<open>
  C6. \<open>GetPluginDrivers\<close> returns the slice that the instance itself holds, not a copy.
  Here the caller writes \<open>Local\<close> at index 0 of the slice returned for \<open>demo\<close>; afterwards
  the list of drivers that the manager records for \<open>demo\<close> is \<open>[Local]\<close> where it was
  \<open>[DemoFS]\<close>, as the next call of \<open>GetPluginDrivers\<close> shows.
\<close>

theorem GetPluginDrivers_shares_backing_array:
  "GetPluginDrivers manager_demo ''demo'' heap_demo =
     Returns (Inr slice_demo, manager_demo, heap_demo) \<and>
   map_option Drivers (table manager_demo heap_demo ''demo'') = Some [''DemoFS''] \<and>
   (\<exists>h'. slice_assign slice_demo 0 ''Local'' heap_demo = Returns h' \<and>
      map_option Drivers (table manager_demo h' ''demo'') = Some [''Local''] \<and>
      GetPluginDrivers manager_demo ''demo'' h' = Returns (Inr slice_demo, manager_demo, h') \<and>
      read_slice h' slice_demo = [''Local''])"
  by (simp add: GetPluginDrivers_def manager_demo_def heap_demo_def slice_demo_def
      map_entries_def table_def slice_assign_def read_slice_def Let_def)

end
